theory Spec2Isabelle
  imports Complex_Main
begin

section \<open>Event retention of bugsink: events/retention.py\<close>

text \<open>
  The development embeds the functions of \<^verbatim>\<open>events/retention.py\<close>. Python integers are
  \<open>int\<close>. A \<^verbatim>\<open>datetime\<close> is the pair of what \<^verbatim>\<open>tzinfo == timezone.utc\<close> tests and the
  instant it denotes, in microseconds (the resolution of \<^verbatim>\<open>datetime\<close>) since
  1970-01-01T00:00:00Z. Arithmetic that the code does in binary64 is taken exactly; where
  that matters is said at the definition. The timing and the logging of
  \<^verbatim>\<open>evict_for_max_events\<close> change no data and are not modelled.
\<close>

subsection \<open>Data model\<close>

datatype tz = Utc | NotUtc

record datetime =
  tzinfo :: tz
  micros :: int

datatype error =
    AssertionError
  | ValueError
  | OSError
  | OverflowError
  | NoMoreEffectiveEviction

text \<open>
  A row of the Event table, with the columns the retention code reads. The column
  \<^verbatim>\<open>server_side_timestamp\<close> holds an instant; Django hands it out as a datetime in UTC.
\<close>

record event =
  event_project :: nat
  server_side_timestamp :: int
  irrelevance_for_retention :: int
  never_evict :: bool

record project =
  project_id :: nat
  retention_max_event_count :: int

type_synonym bounds = "int option \<times> int option"

subsection \<open>Epochs\<close>

text \<open>
  \<^verbatim>\<open>int(x)\<close> of a Python float rounds toward zero; here on the quotient \<open>a / b\<close>.
  \<open>get_epoch\<close> takes the quotient \<^verbatim>\<open>timestamp() / 3600\<close> exactly. In binary64 the result
  is the same for every instant less than \<open>2 ^ 34\<close> seconds from 1970 (from 1425-08-04 to
  2514-05-30); further away \<^verbatim>\<open>timestamp()\<close> no longer resolves a microsecond and can move
  an instant across the start of an epoch.
\<close>

definition int_of_quotient :: "int \<Rightarrow> int \<Rightarrow> int" where
  "int_of_quotient a b = sgn a * sgn b * (\<bar>a\<bar> div \<bar>b\<bar>)"

definition micros_per_epoch :: int where
  "micros_per_epoch = 3600 * 1000000"

definition get_epoch :: "datetime \<Rightarrow> error + int" where
  "get_epoch datetime_obj =
     (if tzinfo datetime_obj \<noteq> Utc then Inl AssertionError
      else Inr (int_of_quotient (micros datetime_obj) micros_per_epoch))"

text \<open>
  \<^verbatim>\<open>datetime.fromtimestamp(epoch * 3600, timezone.utc)\<close> returns for the years 1 to 9999,
  that is for \<open>-62135596800 \<le> epoch * 3600 \<le> 253402300799\<close>. Outside it raises: ValueError
  (year out of range), OSError where the year no longer fits the C library's \<^verbatim>\<open>struct tm\<close>,
  OverflowError where the seconds no longer fit a 64-bit \<^verbatim>\<open>time_t\<close>.
\<close>

definition epoch_start :: "int \<Rightarrow> datetime" where
  "epoch_start epoch = \<lparr>tzinfo = Utc, micros = epoch * 3600 * 1000000\<rparr>"

definition datetime_for_epoch :: "int \<Rightarrow> error + datetime" where
  "datetime_for_epoch epoch =
     (let s = epoch * 3600 in
      if s < - (2 ^ 63) \<or> 2 ^ 63 \<le> s then Inl OverflowError
      else if s < - 67768040609740800 \<or> 67768036191676800 \<le> s then Inl OSError
      else if s < - 62135596800 \<or> 253402300799 < s then Inl ValueError
      else Inr (epoch_start epoch))"

text \<open>
  The words of the specification for \<open>epochOf\<close>: the floor of the seconds since 1970
  divided by 3600.
\<close>

definition spec_epochOf :: "datetime \<Rightarrow> int" where
  "spec_epochOf d = \<lfloor>(real_of_int (micros d) / 1000000) / 3600\<rfloor>"

subsection \<open>The Event table\<close>

text \<open>
  Modelled from the spec: the Event model (\<^verbatim>\<open>events/models.py\<close>) is missing from
  the source files. Following the store contract of the specification, a delete query removes
  the matching rows of the Event table and reports how many rows it removed. The state of
  the database is the list of rows together with the delete queries issued so far, the
  latest first; a delete query is recorded by the project, the exclusive epoch bound (if any)
  and the exclusive irrelevance bound it was built from.
\<close>

type_synonym delete_query = "nat \<times> int option \<times> int"

record db =
  events :: "event list"
  delete_log :: "delete_query list"

definition aggregate_min :: "int list \<Rightarrow> int option" where
  "aggregate_min xs = (case xs of [] \<Rightarrow> None | x # rest \<Rightarrow> Some (fold min rest x))"

definition aggregate_max :: "int list \<Rightarrow> int option" where
  "aggregate_max xs = (case xs of [] \<Rightarrow> None | x # rest \<Rightarrow> Some (fold max rest x))"

text \<open>\<^verbatim>\<open>v or 0\<close> on the result of an aggregate: \<^verbatim>\<open>None\<close> and \<^verbatim>\<open>0\<close> are falsy.\<close>

definition or_0 :: "int option \<Rightarrow> int" where
  "or_0 v = (case v of None \<Rightarrow> 0 | Some m \<Rightarrow> (if m = 0 then 0 else m))"

text \<open>
  The filters on \<^verbatim>\<open>server_side_timestamp\<close> compare with the datetime of an epoch. They are
  modelled on \<open>epoch_start\<close>: the bounds of the buckets that the planner builds lie between
  the epochs of two datetimes, where \<open>datetime_for_epoch\<close> returns; the error of a bound
  outside the range of \<^verbatim>\<open>datetime\<close> is not modelled in the filters.
\<close>

definition get_epoch_bounds :: "int option \<Rightarrow> int option \<Rightarrow> event \<Rightarrow> bool" where
  "get_epoch_bounds lower upper ev =
     (case (lower, upper) of
        (None, None) \<Rightarrow> True
      | (None, Some u) \<Rightarrow> server_side_timestamp ev < micros (epoch_start u)
      | (Some l, None) \<Rightarrow> micros (epoch_start l) \<le> server_side_timestamp ev
      | (Some l, Some u) \<Rightarrow>
          micros (epoch_start l) \<le> server_side_timestamp ev
          \<and> server_side_timestamp ev < micros (epoch_start u))"

subsection \<open>Irrelevance and buckets\<close>

definition should_evict :: "project \<Rightarrow> datetime \<Rightarrow> int \<Rightarrow> bool" where
  "should_evict project timestamp stored_event_count =
     (if stored_event_count > retention_max_event_count project then True else False)"

definition get_age_for_irrelevance :: "nat \<Rightarrow> int" where
  "get_age_for_irrelevance age_based_irrelevance = 2 ^ age_based_irrelevance - 1"

text \<open>
  The generator \<^verbatim>\<open>map_N_until\<close>, collected into a list. Its loop need not end for every
  \<open>f\<close>; \<open>None\<close> is the run that never ends.
\<close>

partial_function (option) map_N_until_from ::
  "(nat \<Rightarrow> int) \<Rightarrow> int \<Rightarrow> bool \<Rightarrow> nat \<Rightarrow> int list option" where
  "map_N_until_from f until onemore n =
     (if f n < until
      then Option.bind (map_N_until_from f until onemore (Suc n)) (\<lambda>rest. Some (f n # rest))
      else Some (if onemore then [f n] else []))"

declare map_N_until_from.simps [code]

definition map_N_until :: "(nat \<Rightarrow> int) \<Rightarrow> int \<Rightarrow> bool \<Rightarrow> int list option" where
  "map_N_until f until onemore = map_N_until_from f until onemore 0"

fun pairwise_list :: "'a list \<Rightarrow> ('a \<times> 'a) list" where
  "pairwise_list [] = []"
| "pairwise_list [prev] = []"
| "pairwise_list (prev # current # it) = (prev, current) # pairwise_list (current # it)"

definition oldest_evictable :: "db \<Rightarrow> project \<Rightarrow> datetime option" where
  "oldest_evictable d project =
     map_option (\<lambda>t. \<lparr>tzinfo = Utc, micros = t\<rparr>)
       (aggregate_min (map server_side_timestamp
          (filter (\<lambda>ev. event_project ev = project_id project \<and> never_evict ev = False)
             (events d))))"

definition get_epoch_bounds_with_irrelevance ::
  "db \<Rightarrow> project \<Rightarrow> datetime \<Rightarrow> (error + (bounds \<times> int) list) option" where
  "get_epoch_bounds_with_irrelevance d project current_timestamp =
     (case (case oldest_evictable d project of
              Some oldest \<Rightarrow> get_epoch oldest
            | None \<Rightarrow> get_epoch current_timestamp) of
        Inl e \<Rightarrow> Some (Inl e)
      | Inr first_epoch \<Rightarrow>
          (case get_epoch current_timestamp of
             Inl e \<Rightarrow> Some (Inl e)
           | Inr current_epoch \<Rightarrow>
               (let difference = current_epoch - first_epoch in
                case map_N_until get_age_for_irrelevance difference False of
                  None \<Rightarrow> None
                | Some ages \<Rightarrow>
                    (let swapped_bounds =
                           pairwise_list ([None] @ map (\<lambda>n. Some (current_epoch - n)) ages @ [None])
                     in Some (Inr (map (\<lambda>(age_based_irrelevance, (ub, lb)).
                                           ((lb, ub), int age_based_irrelevance))
                                     (enumerate 0 swapped_bounds)))))))"

definition get_irrelevance_pairs :: "db \<Rightarrow> project \<Rightarrow> (bounds \<times> int) list \<Rightarrow> (int \<times> int) list" where
  "get_irrelevance_pairs d project epoch_bounds_with_irrelevance =
     map (\<lambda>((lower_bound, upper_bound), age_based_irrelevance).
            (age_based_irrelevance,
             or_0 (aggregate_max (map irrelevance_for_retention
               (filter (\<lambda>ev. get_epoch_bounds lower_bound upper_bound ev
                              \<and> event_project ev = project_id project
                              \<and> never_evict ev = False)
                  (events d))))))
       epoch_bounds_with_irrelevance"

definition filter_for_work ::
  "(bounds \<times> int) list \<Rightarrow> (int \<times> int) list \<Rightarrow> int \<Rightarrow> (bounds \<times> int) list" where
  "filter_for_work epoch_bounds_with_irrelevance pairs max_total_irrelevance =
     map snd (filter (\<lambda>(pair, ebwi). fst pair + snd pair > max_total_irrelevance)
                (zip pairs epoch_bounds_with_irrelevance))"

text \<open>
  \<^verbatim>\<open>int(max_event_count * 0.95)\<close>, with the product taken exactly and rounded toward zero.
  In binary64 the result is the same for counts below \<open>2 ^ 48\<close>, among them the 10000 of
  the convergence property; for larger counts it can differ by one.
\<close>

definition lowered_target :: "int \<Rightarrow> int" where
  "lowered_target max_event_count = int_of_quotient (max_event_count * 95) 100"

subsection \<open>Eviction\<close>

definition evicted :: "project \<Rightarrow> int option \<Rightarrow> int \<Rightarrow> event \<Rightarrow> bool" where
  "evicted project max_epoch max_irrelevance ev =
     (event_project ev = project_id project
      \<and> irrelevance_for_retention ev > max_irrelevance
      \<and> never_evict ev = False
      \<and> (case max_epoch of
            None \<Rightarrow> True
          | Some m \<Rightarrow> server_side_timestamp ev < micros (epoch_start m)))"

definition evict_for_epoch_and_irrelevance :: "db \<Rightarrow> project \<Rightarrow> int option \<Rightarrow> int \<Rightarrow> db \<times> int" where
  "evict_for_epoch_and_irrelevance d project max_epoch max_irrelevance =
     (let qs = evicted project max_epoch max_irrelevance;
          nr_of_deletions = int (length (filter qs (events d)))
      in (\<lparr>events = filter (\<lambda>ev. \<not> qs ev) (events d),
           delete_log = (project_id project, max_epoch, max_irrelevance) # delete_log d\<rparr>,
          nr_of_deletions))"

fun evict_for_irrelevance_from ::
  "db \<Rightarrow> project \<Rightarrow> int \<Rightarrow> (bounds \<times> int) list \<Rightarrow> int option \<Rightarrow> int \<Rightarrow> db \<times> int" where
  "evict_for_irrelevance_from d project max_total_irrelevance [] max_event_count deleted =
     (d, deleted)"
| "evict_for_irrelevance_from d project max_total_irrelevance
       (((lb, epoch_ub_exclusive), irrelevance_for_age) # rest) max_event_count deleted =
     (let max_item_irrelevance = max_total_irrelevance - irrelevance_for_age in
      case evict_for_epoch_and_irrelevance d project epoch_ub_exclusive max_item_irrelevance of
        (d', n) \<Rightarrow>
          (let deleted' = deleted + n in
           if max_item_irrelevance \<le> - 1 then (d', deleted')
           else if (case max_event_count of None \<Rightarrow> False | Some q \<Rightarrow> deleted' \<ge> q)
             then (d', deleted')
           else evict_for_irrelevance_from d' project max_total_irrelevance rest
                  max_event_count deleted'))"

definition evict_for_irrelevance ::
  "db \<Rightarrow> project \<Rightarrow> int \<Rightarrow> (bounds \<times> int) list \<Rightarrow> int option \<Rightarrow> db \<times> int" where
  "evict_for_irrelevance d project max_total_irrelevance epoch_bounds_with_irrelevance
       max_event_count =
     evict_for_irrelevance_from d project max_total_irrelevance epoch_bounds_with_irrelevance
       max_event_count 0"

text \<open>
  The variant of the executor the specification compares with: the same loop without the
  break on \<open>max_item_irrelevance \<le> -1\<close>, so that every remaining older bucket is processed.
\<close>

fun evict_every_bucket_from ::
  "db \<Rightarrow> project \<Rightarrow> int \<Rightarrow> (bounds \<times> int) list \<Rightarrow> int \<Rightarrow> db \<times> int" where
  "evict_every_bucket_from d project max_total_irrelevance [] deleted = (d, deleted)"
| "evict_every_bucket_from d project max_total_irrelevance
       (((lb, epoch_ub_exclusive), irrelevance_for_age) # rest) deleted =
     (let max_item_irrelevance = max_total_irrelevance - irrelevance_for_age in
      case evict_for_epoch_and_irrelevance d project epoch_ub_exclusive max_item_irrelevance of
        (d', n) \<Rightarrow>
          evict_every_bucket_from d' project max_total_irrelevance rest (deleted + n))"

definition evict_every_bucket ::
  "db \<Rightarrow> project \<Rightarrow> int \<Rightarrow> (bounds \<times> int) list \<Rightarrow> db \<times> int" where
  "evict_every_bucket d project max_total_irrelevance epoch_bounds_with_irrelevance =
     evict_every_bucket_from d project max_total_irrelevance epoch_bounds_with_irrelevance 0"

text \<open>
  The while loop of \<^verbatim>\<open>evict_for_max_events\<close>. The result is the database when the loop is
  left, and either the error raised or the final \<^verbatim>\<open>max_total_irrelevance\<close>.
\<close>

function evict_while ::
  "project \<Rightarrow> int \<Rightarrow> (bounds \<times> int) list \<Rightarrow> (int \<times> int) list \<Rightarrow> db \<Rightarrow> int \<Rightarrow> int
     \<Rightarrow> db \<times> (error + int)" where
  "evict_while project stored_event_count epoch_bounds_with_irrelevance pairs d
       max_total_irrelevance deleted =
     (if stored_event_count - deleted > lowered_target (retention_max_event_count project)
      then
        (case evict_for_irrelevance d project (max_total_irrelevance - 1)
                (filter_for_work epoch_bounds_with_irrelevance pairs (max_total_irrelevance - 1))
                (Some ((retention_max_event_count project
                          - lowered_target (retention_max_event_count project)) - deleted)) of
           (d', n) \<Rightarrow>
             if max_total_irrelevance - 1 < - 1 then (d', Inl NoMoreEffectiveEviction)
             else evict_while project stored_event_count epoch_bounds_with_irrelevance pairs d'
                    (max_total_irrelevance - 1) (deleted + n))
      else (d, Inr max_total_irrelevance))"
  by pat_completeness auto
termination
  by (relation "measure (\<lambda>(project, stored_event_count, ebwi, pairs, d, max_total_irrelevance,
        deleted). nat (max_total_irrelevance + 2))") auto

declare evict_while.simps [simp del]

definition evict_for_max_events ::
  "db \<Rightarrow> project \<Rightarrow> datetime \<Rightarrow> int option \<Rightarrow> (db \<times> (error + int)) option" where
  "evict_for_max_events d project timestamp stored_event_count_arg =
     (let stored_event_count =
            (case stored_event_count_arg of
               None \<Rightarrow>
                 int (length (filter (\<lambda>ev. event_project ev = project_id project) (events d))) + 1
             | Some c \<Rightarrow> c)
      in case get_epoch_bounds_with_irrelevance d project timestamp of
           None \<Rightarrow> None
         | Some (Inl e) \<Rightarrow> Some (d, Inl e)
         | Some (Inr epoch_bounds_with_irrelevance) \<Rightarrow>
             (let pairs = get_irrelevance_pairs d project epoch_bounds_with_irrelevance in
              case map (\<lambda>pair. fst pair + snd pair) pairs of
                [] \<Rightarrow> Some (d, Inl ValueError)
              | s # more_sums \<Rightarrow>
                  Some (evict_while project stored_event_count epoch_bounds_with_irrelevance
                          pairs d (fold max more_sums s) 0)))"

subsection \<open>Notions used to state the properties\<close>

text \<open>An event the eviction queries of a project select from: of the project, not protected.\<close>

definition evictable :: "project \<Rightarrow> event \<Rightarrow> bool" where
  "evictable project ev = (event_project ev = project_id project \<and> never_evict ev = False)"

definition evictable_count :: "project \<Rightarrow> db \<Rightarrow> int" where
  "evictable_count project d = int (length (filter (evictable project) (events d)))"

text \<open>Exclusive upper epoch bounds, ordered with \<open>None\<close> (no bound) on top.\<close>

definition ub_le :: "int option \<Rightarrow> int option \<Rightarrow> bool" where
  "ub_le a b = (case b of None \<Rightarrow> True
                | Some y \<Rightarrow> (case a of None \<Rightarrow> False | Some x \<Rightarrow> x \<le> y))"

definition newest_to_oldest :: "(bounds \<times> int) list \<Rightarrow> bool" where
  "newest_to_oldest bs = sorted_wrt (\<lambda>b1 b2. ub_le (snd (fst b2)) (snd (fst b1))) bs"

text \<open>The bucket list built from the current epoch and the number of ages generated.\<close>

definition planned :: "int \<Rightarrow> nat \<Rightarrow> (bounds \<times> int) list" where
  "planned current_epoch m =
     map (\<lambda>(age_based_irrelevance, (ub, lb)). ((lb, ub), int age_based_irrelevance))
       (enumerate 0 (pairwise_list ([None] @ map (\<lambda>n. Some (current_epoch - n))
                                          (map get_age_for_irrelevance [0..<m]) @ [None])))"

section \<open>Properties\<close>

subsection \<open>Epoch clock\<close>

lemma int_of_quotient_nonneg:
  "0 \<le> a \<Longrightarrow> 0 < b \<Longrightarrow> int_of_quotient a b = a div b"
  by (cases "a = 0") (simp_all add: int_of_quotient_def)

lemma int_of_quotient_neg:
  "a < 0 \<Longrightarrow> 0 < b \<Longrightarrow> int_of_quotient a b = - ((- a) div b)"
  by (simp add: int_of_quotient_def)

lemma spec_epochOf_div: "spec_epochOf d = micros d div 3600000000"
proof -
  have "(real_of_int (micros d) / 1000000) / 3600 = real_of_int (micros d) / real_of_int 3600000000"
    by simp
  then show ?thesis
    unfolding spec_epochOf_def by (simp only: floor_divide_of_int_eq)
qed

text \<open>
  C8, as stated, fails one second before 1970: the quotient \<open>-1/3600\<close> has floor \<open>-1\<close>,
  and \<open>get_epoch\<close> returns \<open>0\<close>.
\<close>

theorem get_epoch_floor_counterexample:
  "get_epoch \<lparr>tzinfo = Utc, micros = - 1000000\<rparr> = Inr 0
   \<and> spec_epochOf \<lparr>tzinfo = Utc, micros = - 1000000\<rparr> = - 1"
  by (simp add: get_epoch_def int_of_quotient_def micros_per_epoch_def spec_epochOf_div)

text \<open>
  C8, amended: for every UTC timestamp less than \<open>2 ^ 34\<close> seconds from 1970 (from
  1425-08-04 to 2514-05-30), \<open>get_epoch\<close> returns the quotient of the seconds since 1970 by
  3600 rounded toward zero: its floor for a timestamp at or after 1970, its ceiling for a
  timestamp before 1970.
\<close>

theorem get_epoch_truncates:
  assumes "tzinfo d = Utc"
    and "\<bar>micros d\<bar> < 2 ^ 34 * 1000000"
  shows "get_epoch d =
           Inr (if 0 \<le> micros d then \<lfloor>(real_of_int (micros d) / 1000000) / 3600\<rfloor>
                else \<lceil>(real_of_int (micros d) / 1000000) / 3600\<rceil>)"
proof (cases "0 \<le> micros d")
  case True
  then have "int_of_quotient (micros d) micros_per_epoch = micros d div 3600000000"
    by (simp add: int_of_quotient_nonneg micros_per_epoch_def)
  also have "\<dots> = spec_epochOf d"
    by (simp add: spec_epochOf_div)
  finally show ?thesis
    using assms(1) True by (simp add: get_epoch_def spec_epochOf_def)
next
  case False
  then have neg: "micros d < 0" by simp
  have q: "(real_of_int (micros d) / 1000000) / 3600
             = - (real_of_int (- micros d) / real_of_int 3600000000)"
    by simp
  have "\<lceil>(real_of_int (micros d) / 1000000) / 3600\<rceil> = - ((- micros d) div 3600000000)"
    unfolding q ceiling_minus by (simp only: minus_minus floor_divide_of_int_eq)
  moreover have "int_of_quotient (micros d) micros_per_epoch = - ((- micros d) div 3600000000)"
    using neg by (simp add: int_of_quotient_neg micros_per_epoch_def)
  ultimately show ?thesis
    using assms(1) False by (simp add: get_epoch_def)
qed

theorem get_epoch_truncates_witness:
  "get_epoch \<lparr>tzinfo = Utc, micros = 5400000000\<rparr> = Inr 1
   \<and> get_epoch \<lparr>tzinfo = Utc, micros = - 5400000000\<rparr> = Inr (- 1)"
proof -
  have a: "\<lfloor>(real_of_int 5400000000 / 1000000) / 3600\<rfloor> = (1::int)"
    by (simp add: floor_eq_iff)
  have b: "\<lceil>(real_of_int (- 5400000000) / 1000000) / 3600\<rceil> = (- 1::int)"
    by (simp add: ceiling_eq_iff)
  show ?thesis
    using get_epoch_truncates [of "\<lparr>tzinfo = Utc, micros = 5400000000\<rparr>"]
      get_epoch_truncates [of "\<lparr>tzinfo = Utc, micros = - 5400000000\<rparr>"] a b
    by simp
qed

lemma get_epoch_epoch_start: "get_epoch (epoch_start e) = Inr e"
proof -
  have "int_of_quotient (e * 3600 * 1000000) (3600 * 1000000) = e"
    by (simp add: int_of_quotient_def abs_mult sgn_mult mult_sgn_abs)
  then show ?thesis
    by (simp add: get_epoch_def epoch_start_def micros_per_epoch_def)
qed

text \<open>
  C9, as stated, fails outside the years 1 to 9999: for the epoch 70389528, the first hour
  of the year 10000, \<open>datetime_for_epoch\<close> raises ValueError and there is no datetime to
  take the epoch of; likewise for the epoch -17259889, the last hour before the year 1.
\<close>

theorem round_trip_counterexample:
  "datetime_for_epoch 70389528 = Inl ValueError
   \<and> datetime_for_epoch (- 17259889) = Inl ValueError"
  by (simp add: datetime_for_epoch_def Let_def)

text \<open>
  C9, amended: for every integer \<open>e\<close> from -17259888 to 70389527 (the epochs of the years
  1 to 9999), \<open>datetime_for_epoch e\<close> returns a UTC datetime whose epoch, by \<open>get_epoch\<close>,
  is \<open>e\<close>, and which is a whole multiple of 3600 seconds from 1970.
\<close>

theorem round_trip_within_datetime_range:
  assumes "- 17259888 \<le> e" and "e \<le> 70389527"
  shows "\<exists>t. datetime_for_epoch e = Inr t
           \<and> get_epoch t = Inr e
           \<and> tzinfo t = Utc
           \<and> micros t mod (3600 * 1000000) = 0"
proof -
  have "datetime_for_epoch e = Inr (epoch_start e)"
    using assms by (simp add: datetime_for_epoch_def Let_def)
  moreover have "tzinfo (epoch_start e) = Utc"
    and "micros (epoch_start e) mod (3600 * 1000000) = 0"
    by (simp_all add: epoch_start_def)
  ultimately show ?thesis
    using get_epoch_epoch_start [of e] by simp
qed

theorem round_trip_within_datetime_range_witness:
  "(\<exists>t. datetime_for_epoch 70389527 = Inr t \<and> get_epoch t = Inr 70389527)
   \<and> (\<exists>t. datetime_for_epoch (- 17259888) = Inr t \<and> get_epoch t = Inr (- 17259888))"
  using round_trip_within_datetime_range [of 70389527]
    round_trip_within_datetime_range [of "- 17259888"]
  by auto

subsection \<open>The bucket planner\<close>

lemma get_age_for_irrelevance_Suc:
  "get_age_for_irrelevance n < get_age_for_irrelevance (Suc n)"
  by (simp add: get_age_for_irrelevance_def)

lemma map_N_until_from_ages:
  "\<exists>m. map_N_until_from get_age_for_irrelevance until onemore n =
         Some (map get_age_for_irrelevance [n..<n + m]
               @ (if onemore then [get_age_for_irrelevance (n + m)] else []))"
proof (induction "nat (until - get_age_for_irrelevance n)" arbitrary: n rule: less_induct)
  case less
  show ?case
  proof (cases "get_age_for_irrelevance n < until")
    case False
    then have "map_N_until_from get_age_for_irrelevance until onemore n =
        Some (map get_age_for_irrelevance [n..<n + 0]
               @ (if onemore then [get_age_for_irrelevance (n + 0)] else []))"
      by (subst map_N_until_from.simps) simp
    then show ?thesis by blast
  next
    case True
    have "nat (until - get_age_for_irrelevance (Suc n)) < nat (until - get_age_for_irrelevance n)"
      using True get_age_for_irrelevance_Suc [of n] by linarith
    from less [OF this] obtain m where
      m: "map_N_until_from get_age_for_irrelevance until onemore (Suc n) =
           Some (map get_age_for_irrelevance [Suc n..<Suc n + m]
               @ (if onemore then [get_age_for_irrelevance (Suc n + m)] else []))"
      by blast
    have "map_N_until_from get_age_for_irrelevance until onemore n =
        Some (map get_age_for_irrelevance [n..<n + Suc m]
               @ (if onemore then [get_age_for_irrelevance (n + Suc m)] else []))"
    proof -
      have u: "[n..<n + Suc m] = n # [Suc n..<Suc n + m]"
        by (simp add: upt_conv_Cons)
      show ?thesis
        by (subst map_N_until_from.simps) (simp only: True m u, simp)
    qed
    then show ?thesis by blast
  qed
qed

lemma map_N_until_ages:
  "\<exists>m. map_N_until get_age_for_irrelevance until False = Some (map get_age_for_irrelevance [0..<m])"
  using map_N_until_from_ages [of until False 0] by (simp add: map_N_until_def)

lemma map_N_until_ages_0:
  "map_N_until get_age_for_irrelevance 0 False = Some []"
  unfolding map_N_until_def
  by (subst map_N_until_from.simps) (simp add: get_age_for_irrelevance_def)

lemma get_epoch_Utc:
  "tzinfo t = Utc \<Longrightarrow> \<exists>c. get_epoch t = Inr c"
  by (simp add: get_epoch_def)

lemma oldest_evictable_Utc:
  "oldest_evictable d project = Some t \<Longrightarrow> tzinfo t = Utc"
  by (auto simp: oldest_evictable_def)

lemma oldest_evictable_None:
  "oldest_evictable d project = None \<longleftrightarrow> filter (evictable project) (events d) = []"
proof -
  have e: "evictable project = (\<lambda>ev. event_project ev = project_id project \<and> never_evict ev = False)"
    by (simp add: fun_eq_iff evictable_def)
  show ?thesis
    unfolding e by (auto simp: oldest_evictable_def aggregate_min_def split: list.splits)
qed

lemma get_epoch_bounds_with_irrelevance_planned:
  assumes "tzinfo now = Utc"
  shows "\<exists>cur m. get_epoch_bounds_with_irrelevance d project now = Some (Inr (planned cur m))
           \<and> (filter (evictable project) (events d) = [] \<longrightarrow> m = 0)"
proof -
  from assms obtain cur where cur: "get_epoch now = Inr cur"
    using get_epoch_Utc by blast
  show ?thesis
  proof (cases "oldest_evictable d project")
    case None
    then have "get_epoch_bounds_with_irrelevance d project now = Some (Inr (planned cur 0))"
      by (simp add: get_epoch_bounds_with_irrelevance_def cur map_N_until_ages_0 planned_def)
    then show ?thesis by blast
  next
    case (Some t)
    then obtain first where first: "get_epoch t = Inr first"
      using oldest_evictable_Utc get_epoch_Utc by blast
    obtain m where
      "map_N_until get_age_for_irrelevance (cur - first) False
         = Some (map get_age_for_irrelevance [0..<m])"
      using map_N_until_ages by blast
    then have "get_epoch_bounds_with_irrelevance d project now = Some (Inr (planned cur m))"
      by (simp add: get_epoch_bounds_with_irrelevance_def cur Some first planned_def)
    moreover have "filter (evictable project) (events d) \<noteq> []"
      using Some oldest_evictable_None [of d project] by simp
    ultimately show ?thesis by blast
  qed
qed

lemma get_age_for_irrelevance_strict_mono:
  "i < j \<Longrightarrow> get_age_for_irrelevance i < get_age_for_irrelevance j"
  by (simp add: get_age_for_irrelevance_def)

lemma boundaries_decreasing:
  "sorted_wrt (\<lambda>x y. y < x) (map (\<lambda>n. cur - n) (map get_age_for_irrelevance [0..<m]))"
  by (simp add: sorted_wrt_map sorted_wrt_iff_nth_less get_age_for_irrelevance_strict_mono)

lemma pairwise_chain_fst:
  "map fst (pairwise_list (u # map Some cs @ [None])) = u # map Some cs"
  by (induction cs arbitrary: u) simp_all

lemma pairwise_chain_last:
  "snd (last (pairwise_list (u # map Some cs @ [None]))) = None"
  by (induction cs arbitrary: u) (simp_all add: pairwise_chain_fst [THEN arg_cong, of "\<lambda>xs. xs = []", simplified])

lemma pairwise_chain_covers:
  assumes "sorted_wrt (\<lambda>x y. y < x) cs"
    and "\<forall>c\<in>set cs. case u of None \<Rightarrow> True | Some v \<Rightarrow> c < v"
  shows "length (filter (\<lambda>(ub, lb). get_epoch_bounds lb ub ev)
                   (pairwise_list (u # map Some cs @ [None])))
         = (if (case u of None \<Rightarrow> True
                | Some v \<Rightarrow> server_side_timestamp ev < micros (epoch_start v))
            then 1 else 0)"
  using assms
proof (induction cs arbitrary: u)
  case Nil
  show ?case
    by (simp add: get_epoch_bounds_def split: option.splits)
next
  case (Cons c cs)
  have rest: "length (filter (\<lambda>(ub, lb). get_epoch_bounds lb ub ev)
                   (pairwise_list (Some c # map Some cs @ [None])))
         = (if server_side_timestamp ev < micros (epoch_start c) then 1 else 0)"
    using Cons.IH [of "Some c"] Cons.prems(1) by simp
  have below: "case u of None \<Rightarrow> True | Some v \<Rightarrow> c < v"
    using Cons.prems(2) by simp
  show ?case
  proof (cases u)
    case None
    then show ?thesis
      using rest by (simp add: get_epoch_bounds_def)
  next
    case (Some v)
    then have "c < v" using below by simp
    then have "micros (epoch_start c) < micros (epoch_start v)"
      by (simp add: epoch_start_def)
    then show ?thesis
      using rest Some by (auto simp: get_epoch_bounds_def)
  qed
qed

lemma map_fst_planned:
  "map fst (planned cur m) =
     map (\<lambda>(ub, lb). (lb, ub))
       (pairwise_list (None # map Some (map (\<lambda>n. cur - n) (map get_age_for_irrelevance [0..<m]))
                  @ [None]))"
proof -
  have h: "map fst (map (\<lambda>(a, (ub, lb)). ((lb, ub), int a)) (enumerate n xs))
          = map (\<lambda>(ub, lb). (lb, ub)) xs"
    for xs :: "(int option \<times> int option) list" and n
    by (induction xs arbitrary: n) auto
  show ?thesis
    unfolding planned_def h by (simp add: comp_def)
qed

lemma pairwise_chain_nonempty: "pairwise_list (u # map Some cs @ [None]) \<noteq> []"
  by (cases cs) simp_all

lemma planned_0: "planned cur 0 = [((None, None), 0)]"
  by (simp add: planned_def)

lemma planned_hd: "\<exists>lb rest. planned cur m = ((lb, None), 0) # rest"
  by (cases "map get_age_for_irrelevance [0..<m]") (simp_all add: planned_def)

lemma planned_last: "fst (fst (last (planned cur m))) = None"
proof -
  obtain lb rest where "planned cur m = ((lb, None), 0) # rest"
    using planned_hd by blast
  then have ne: "planned cur m \<noteq> []" by simp
  then have "fst (last (planned cur m)) = last (map fst (planned cur m))"
    by (simp add: last_map)
  also have "\<dots> = (\<lambda>(ub, lb). (lb, ub))
      (last (pairwise_list (None # map Some (map (\<lambda>n. cur - n)
                              (map get_age_for_irrelevance [0..<m])) @ [None])))"
    unfolding map_fst_planned by (rule last_map) (rule pairwise_chain_nonempty)
  finally show ?thesis
    using pairwise_chain_last [of None "map (\<lambda>n. cur - n) (map get_age_for_irrelevance [0..<m])"]
    by (simp add: case_prod_beta)
qed

lemma planned_covers:
  "length (filter (\<lambda>((lb, ub), a). get_epoch_bounds lb ub ev) (planned cur m)) = 1"
proof -
  have "length (filter (\<lambda>((lb, ub), a). get_epoch_bounds lb ub ev) (planned cur m))
          = length (filter (\<lambda>(lb, ub). get_epoch_bounds lb ub ev) (map fst (planned cur m)))"
    by (simp add: filter_map comp_def split_def)
  also have "\<dots> = length (filter (\<lambda>(ub, lb). get_epoch_bounds lb ub ev)
       (pairwise_list (None # map Some (map (\<lambda>n. cur - n)
                              (map get_age_for_irrelevance [0..<m])) @ [None])))"
    unfolding map_fst_planned by (simp add: filter_map comp_def split_def)
  also have "\<dots> = 1"
    using pairwise_chain_covers [OF boundaries_decreasing, of cur m None ev] by simp
  finally show ?thesis .
qed

lemma planned_newest_to_oldest: "newest_to_oldest (planned cur m)"
proof -
  have "sorted_wrt (\<lambda>a b. ub_le b a)
          (None # map Some (map (\<lambda>n. cur - n) (map get_age_for_irrelevance [0..<m])))"
    using boundaries_decreasing [of cur m]
    by (auto simp: sorted_wrt_map ub_le_def elim: sorted_wrt_mono_rel [rotated])
  then have "sorted_wrt (\<lambda>a b. ub_le b a) (map fst (pairwise_list
      (None # map Some (map (\<lambda>n. cur - n) (map get_age_for_irrelevance [0..<m])) @ [None])))"
    by (simp only: pairwise_chain_fst)
  then have "sorted_wrt (\<lambda>a b. ub_le (snd b) (snd a)) (map fst (planned cur m))"
    unfolding map_fst_planned by (simp add: sorted_wrt_map case_prod_beta)
  then show ?thesis
    by (simp add: newest_to_oldest_def sorted_wrt_map)
qed

subsection \<open>Coverage of the buckets\<close>

lemma get_epoch_bounds_at_epoch:
  assumes "server_side_timestamp ev = micros (epoch_start e)"
  shows "get_epoch_bounds lb ub ev =
           ((case lb of None \<Rightarrow> True | Some l \<Rightarrow> l \<le> e)
            \<and> (case ub of None \<Rightarrow> True | Some u \<Rightarrow> e < u))"
  using assms by (simp add: get_epoch_bounds_def epoch_start_def split: option.splits)

text \<open>
  C6: for a UTC timestamp the planner returns a non-empty bucket list whose first (newest)
  bucket has no upper bound and whose last (oldest) bucket has no lower bound, and every
  instant, hence every epoch, lies in exactly one bucket of the list.
\<close>

theorem bucket_coverage:
  assumes "tzinfo current_timestamp = Utc"
  shows "\<exists>bs. get_epoch_bounds_with_irrelevance d project current_timestamp = Some (Inr bs)
           \<and> bs \<noteq> []
           \<and> snd (fst (hd bs)) = None
           \<and> fst (fst (last bs)) = None
           \<and> (\<forall>ev. length (filter (\<lambda>((lb, ub), a). get_epoch_bounds lb ub ev) bs) = 1)
           \<and> (\<forall>e. length (filter (\<lambda>((lb, ub), a).
                         (case lb of None \<Rightarrow> True | Some l \<Rightarrow> l \<le> e)
                         \<and> (case ub of None \<Rightarrow> True | Some u \<Rightarrow> e < u)) bs) = 1)"
proof -
  obtain cur m where
    bs: "get_epoch_bounds_with_irrelevance d project current_timestamp
           = Some (Inr (planned cur m))"
    using get_epoch_bounds_with_irrelevance_planned [OF assms] by blast
  obtain lb rest where hd: "planned cur m = ((lb, None), 0) # rest"
    using planned_hd by blast
  have epochs: "length (filter (\<lambda>((lb, ub), a).
                         (case lb of None \<Rightarrow> True | Some l \<Rightarrow> l \<le> e)
                         \<and> (case ub of None \<Rightarrow> True | Some u \<Rightarrow> e < u)) (planned cur m)) = 1"
    for e
  proof -
    define ev where "ev = \<lparr>event_project = project_id project,
      server_side_timestamp = micros (epoch_start e),
      irrelevance_for_retention = 0, never_evict = False\<rparr>"
    then have "server_side_timestamp ev = micros (epoch_start e)" by simp
    from get_epoch_bounds_at_epoch [OF this] planned_covers [of ev cur m]
    show ?thesis by simp
  qed
  show ?thesis
    using bs hd planned_last [of cur m] planned_covers [of _ cur m] epochs
    by (intro exI [of _ "planned cur m"]) simp
qed

theorem bucket_coverage_witness:
  "\<exists>bs. get_epoch_bounds_with_irrelevance
           \<lparr>events = [\<lparr>event_project = 1, server_side_timestamp = 0,
                        irrelevance_for_retention = 3, never_evict = False\<rparr>],
            delete_log = []\<rparr>
           \<lparr>project_id = 1, retention_max_event_count = 10\<rparr>
           \<lparr>tzinfo = Utc, micros = 36000000000\<rparr> = Some (Inr bs)
        \<and> bs \<noteq> [] \<and> snd (fst (hd bs)) = None \<and> fst (fst (last bs)) = None
        \<and> (\<forall>ev. length (filter (\<lambda>((lb, ub), a). get_epoch_bounds lb ub ev) bs) = 1)"
  using bucket_coverage [of "\<lparr>tzinfo = Utc, micros = 36000000000\<rparr>"
      "\<lparr>events = [\<lparr>event_project = 1, server_side_timestamp = 0,
                        irrelevance_for_retention = 3, never_evict = False\<rparr>],
            delete_log = []\<rparr>"
      "\<lparr>project_id = 1, retention_max_event_count = 10\<rparr>"]
  by auto

subsection \<open>The sweep of evict_for_max_events\<close>

lemma evict_while_error:
  "snd (evict_while project sec ebwi pairs d mti deleted) = Inl e \<Longrightarrow> e = NoMoreEffectiveEviction"
proof (induction project sec ebwi pairs d mti deleted rule: evict_while.induct)
  case (1 project sec ebwi pairs d mti deleted)
  show ?case
  proof (cases "sec - deleted > lowered_target (retention_max_event_count project)")
    case False
    with "1.prems" show ?thesis
      by (subst (asm) evict_while.simps) simp
  next
    case True
    obtain d' n where step: "evict_for_irrelevance d project (mti - 1)
                (filter_for_work ebwi pairs (mti - 1))
                (Some ((retention_max_event_count project
                          - lowered_target (retention_max_event_count project)) - deleted)) = (d', n)"
      by (cases "evict_for_irrelevance d project (mti - 1)
                (filter_for_work ebwi pairs (mti - 1))
                (Some ((retention_max_event_count project
                          - lowered_target (retention_max_event_count project)) - deleted))") blast
    show ?thesis
    proof (cases "mti - 1 < - 1")
      case raise: True
      with "1.prems" True step show ?thesis
        by (subst (asm) evict_while.simps) simp
    next
      case False
      have "snd (evict_while project sec ebwi pairs d' (mti - 1) (deleted + n)) = Inl e"
        using "1.prems" True step False by (subst (asm) evict_while.simps) simp
      with "1.IH" [OF True step [symmetric] False] show ?thesis .
    qed
  qed
qed

text \<open>
  C10: for every state of the Event table and every UTC timestamp the planner returns a
  non-empty bucket list, the single bucket \<open>((None, None), 0)\<close> when the project has no
  event that may be evicted; the survey then yields at least one pair, and
  \<open>evict_for_max_events\<close> returns without the error of \<open>max\<close> on an empty sequence.
\<close>

theorem planner_never_empty:
  assumes "tzinfo current_timestamp = Utc"
  shows "\<exists>bs. get_epoch_bounds_with_irrelevance d project current_timestamp = Some (Inr bs)
           \<and> bs \<noteq> []
           \<and> (filter (evictable project) (events d) = [] \<longrightarrow> bs = [((None, None), 0)])
           \<and> get_irrelevance_pairs d project bs \<noteq> []
           \<and> (\<exists>d' r. evict_for_max_events d project current_timestamp stored_event_count
                        = Some (d', r) \<and> r \<noteq> Inl ValueError \<and> r \<noteq> Inl AssertionError)"
proof -
  obtain cur m where
    bs: "get_epoch_bounds_with_irrelevance d project current_timestamp
           = Some (Inr (planned cur m))"
    and none: "filter (evictable project) (events d) = [] \<longrightarrow> m = 0"
    using get_epoch_bounds_with_irrelevance_planned [OF assms] by blast
  obtain lb rest where hd: "planned cur m = ((lb, None), 0) # rest"
    using planned_hd by blast
  then obtain p ps where pairs: "get_irrelevance_pairs d project (planned cur m) = p # ps"
    by (simp add: get_irrelevance_pairs_def)
  define sec where "sec = (case stored_event_count of
               None \<Rightarrow>
                 int (length (filter (\<lambda>ev. event_project ev = project_id project) (events d))) + 1
             | Some c \<Rightarrow> c)"
  have run: "evict_for_max_events d project current_timestamp stored_event_count
          = Some (evict_while project sec (planned cur m) (p # ps) d
                    (fold max (map (\<lambda>pair. fst pair + snd pair) ps) (fst p + snd p)) 0)"
    by (simp add: evict_for_max_events_def bs pairs sec_def Let_def)
  obtain d' r where res: "evict_while project sec (planned cur m) (p # ps) d
                    (fold max (map (\<lambda>pair. fst pair + snd pair) ps) (fst p + snd p)) 0 = (d', r)"
    by (cases "evict_while project sec (planned cur m) (p # ps) d
                    (fold max (map (\<lambda>pair. fst pair + snd pair) ps) (fst p + snd p)) 0") blast
  have "r = Inl e \<Longrightarrow> e = NoMoreEffectiveEviction" for e
    using evict_while_error [of project sec "planned cur m" "p # ps" d
        "fold max (map (\<lambda>pair. fst pair + snd pair) ps) (fst p + snd p)" 0 e] res by simp
  then have "r \<noteq> Inl ValueError \<and> r \<noteq> Inl AssertionError"
    by blast
  then show ?thesis
    using bs hd none pairs run res planned_0 [of cur]
    by (intro exI [of _ "planned cur m"]) auto
qed

theorem planner_never_empty_witness:
  "\<exists>bs. get_epoch_bounds_with_irrelevance
           \<lparr>events = [\<lparr>event_project = 1, server_side_timestamp = 0,
                        irrelevance_for_retention = 3, never_evict = True\<rparr>],
            delete_log = []\<rparr>
           \<lparr>project_id = 1, retention_max_event_count = 10\<rparr>
           \<lparr>tzinfo = Utc, micros = 36000000000\<rparr> = Some (Inr bs)
        \<and> bs = [((None, None), 0)]"
  using planner_never_empty [of "\<lparr>tzinfo = Utc, micros = 36000000000\<rparr>"
      "\<lparr>events = [\<lparr>event_project = 1, server_side_timestamp = 0,
                        irrelevance_for_retention = 3, never_evict = True\<rparr>],
            delete_log = []\<rparr>"
      "\<lparr>project_id = 1, retention_max_event_count = 10\<rparr>" None]
  by (auto simp: evictable_def)

subsection \<open>The delete query and the executor\<close>

lemma evicted_evictable: "evicted project max_epoch max_irrelevance ev \<Longrightarrow> evictable project ev"
  by (simp add: evicted_def evictable_def)

lemma evict_for_epoch_and_irrelevance_events:
  "events (fst (evict_for_epoch_and_irrelevance d project max_epoch max_irrelevance))
     = filter (\<lambda>ev. \<not> evicted project max_epoch max_irrelevance ev) (events d)"
  by (simp add: evict_for_epoch_and_irrelevance_def Let_def)

lemma evict_for_epoch_and_irrelevance_count:
  "snd (evict_for_epoch_and_irrelevance d project max_epoch max_irrelevance)
     = int (length (filter (evicted project max_epoch max_irrelevance) (events d)))"
  by (simp add: evict_for_epoch_and_irrelevance_def Let_def)

lemma evict_for_epoch_and_irrelevance_log:
  "delete_log (fst (evict_for_epoch_and_irrelevance d project max_epoch max_irrelevance))
     = (project_id project, max_epoch, max_irrelevance) # delete_log d"
  by (simp add: evict_for_epoch_and_irrelevance_def Let_def)

lemma filter_not_evicted_others:
  "filter (\<lambda>ev. \<not> evictable project ev)
      (filter (\<lambda>ev. \<not> evicted project max_epoch max_irrelevance ev) xs)
     = filter (\<lambda>ev. \<not> evictable project ev) xs"
  by (induction xs) (auto dest: evicted_evictable)

lemma length_filter_evicted:
  "int (length (filter (evictable project) xs))
     = int (length (filter (evictable project)
              (filter (\<lambda>ev. \<not> evicted project max_epoch max_irrelevance ev) xs)))
       + int (length (filter (evicted project max_epoch max_irrelevance) xs))"
  by (induction xs) (auto dest: evicted_evictable)

text \<open>What one delete query leaves: the rows it may not select, and the count it reports.\<close>

lemma evict_for_epoch_and_irrelevance_frame:
  assumes "evict_for_epoch_and_irrelevance d project max_epoch max_irrelevance = (d', n)"
  shows "filter (\<lambda>ev. \<not> evictable project ev) (events d')
           = filter (\<lambda>ev. \<not> evictable project ev) (events d)"
    and "evictable_count project d = evictable_count project d' + n"
    and "int (length (events d)) = int (length (events d')) + n"
    and "0 \<le> n"
    and "set (events d') \<subseteq> set (events d)"
proof -
  have d': "events d' = filter (\<lambda>ev. \<not> evicted project max_epoch max_irrelevance ev) (events d)"
    and n: "n = int (length (filter (evicted project max_epoch max_irrelevance) (events d)))"
    using assms evict_for_epoch_and_irrelevance_events [of d project max_epoch max_irrelevance]
      evict_for_epoch_and_irrelevance_count [of d project max_epoch max_irrelevance]
    by simp_all
  show "filter (\<lambda>ev. \<not> evictable project ev) (events d')
           = filter (\<lambda>ev. \<not> evictable project ev) (events d)"
    unfolding d' by (rule filter_not_evicted_others)
  show "evictable_count project d = evictable_count project d' + n"
    unfolding evictable_count_def d' n by (rule length_filter_evicted)
  show "int (length (events d)) = int (length (events d')) + n"
    unfolding d' n
    using sum_length_filter_compl [of "evicted project max_epoch max_irrelevance" "events d"]
    by linarith
  show "0 \<le> n" unfolding n by simp
  show "set (events d') \<subseteq> set (events d)" unfolding d' by auto
qed

lemma evict_for_irrelevance_from_frame:
  assumes "evict_for_irrelevance_from d project mti bs q deleted = (d', deleted')"
  shows "filter (\<lambda>ev. \<not> evictable project ev) (events d')
           = filter (\<lambda>ev. \<not> evictable project ev) (events d)
         \<and> evictable_count project d = evictable_count project d' + (deleted' - deleted)
         \<and> int (length (events d)) = int (length (events d')) + (deleted' - deleted)
         \<and> deleted \<le> deleted'
         \<and> set (events d') \<subseteq> set (events d)"
  using assms
proof (induction bs arbitrary: d deleted)
  case Nil
  then show ?case by simp
next
  case (Cons b bs)
  obtain lb ub age where b: "b = ((lb, ub), age)"
    by (cases b) auto
  obtain d1 n where q1: "evict_for_epoch_and_irrelevance d project ub (mti - age) = (d1, n)"
    by (cases "evict_for_epoch_and_irrelevance d project ub (mti - age)") blast
  note f = evict_for_epoch_and_irrelevance_frame [OF q1]
  show ?case
  proof (cases "mti - age \<le> - 1 \<or> (case q of None \<Rightarrow> False | Some c \<Rightarrow> deleted + n \<ge> c)")
    case True
    then have "d' = d1 \<and> deleted' = deleted + n"
      using Cons.prems b q1 by (auto simp: Let_def split: if_splits)
    then show ?thesis using f by simp
  next
    case False
    then have "evict_for_irrelevance_from d1 project mti bs q (deleted + n) = (d', deleted')"
      using Cons.prems b q1 by (auto simp: Let_def split: if_splits)
    from Cons.IH [OF this] f show ?thesis by auto
  qed
qed

lemma evict_for_irrelevance_from_break:
  assumes "mti - age \<le> - 1"
  shows "evict_for_irrelevance_from d project mti (((lb, ub), age) # rest) q deleted
           = (fst (evict_for_epoch_and_irrelevance d project ub (mti - age)),
              deleted + snd (evict_for_epoch_and_irrelevance d project ub (mti - age)))"
  using assms by (simp add: Let_def split: prod.splits)

lemma delete_everything:
  assumes "\<forall>ev\<in>set (events d). evictable project ev \<longrightarrow> 0 \<le> irrelevance_for_retention ev"
    and "max_irrelevance \<le> - 1"
  shows "evictable_count project
           (fst (evict_for_epoch_and_irrelevance d project None max_irrelevance)) = 0"
proof -
  have "evictable project ev \<Longrightarrow> evicted project None max_irrelevance ev"
    if "ev \<in> set (events d)" for ev
    using assms that by (fastforce simp: evicted_def evictable_def)
  then have "filter (evictable project)
      (filter (\<lambda>ev. \<not> evicted project None max_irrelevance ev) (events d)) = []"
    by (auto simp: filter_empty_conv)
  then show ?thesis
    by (simp add: evictable_count_def evict_for_epoch_and_irrelevance_events)
qed

lemma filter_for_work_head:
  assumes "fst pair + snd pair > mti"
  shows "filter_for_work (b # ebwi) (pair # pairs) mti = b # filter_for_work ebwi pairs mti"
  using assms by (simp add: filter_for_work_def)

lemma fold_max_ge: "(x::int) \<le> fold max xs x"
proof (induction xs arbitrary: x)
  case Nil
  show ?case by simp
next
  case (Cons y ys)
  have "x \<le> max y x" by simp
  also have "\<dots> \<le> fold max ys (max y x)" by (rule Cons.IH)
  finally show ?case by simp
qed

lemma or_0_aggregate_max_nonneg:
  assumes "\<forall>x\<in>set xs. 0 \<le> x"
  shows "0 \<le> or_0 (aggregate_max xs)"
proof (cases xs)
  case Nil
  then show ?thesis by (simp add: or_0_def aggregate_max_def)
next
  case (Cons x rest)
  then have "0 \<le> x" using assms by simp
  then have "0 \<le> fold max rest x" using fold_max_ge [of x rest] by linarith
  then show ?thesis using Cons by (simp add: or_0_def aggregate_max_def)
qed

lemma get_irrelevance_pairs_head:
  assumes "\<forall>ev\<in>set (events d). evictable project ev \<longrightarrow> 0 \<le> irrelevance_for_retention ev"
  shows "\<exists>mx. 0 \<le> mx \<and> get_irrelevance_pairs d project (((lb, ub), age) # rest)
           = (age, mx) # get_irrelevance_pairs d project rest"
proof -
  have "\<forall>x\<in>set (map irrelevance_for_retention
               (filter (\<lambda>ev. get_epoch_bounds lb ub ev
                              \<and> event_project ev = project_id project
                              \<and> never_evict ev = False)
                  (events d))). 0 \<le> x"
    using assms by (auto simp: evictable_def)
  from or_0_aggregate_max_nonneg [OF this] show ?thesis
    by (simp add: get_irrelevance_pairs_def)
qed

lemma evict_for_irrelevance_frame:
  assumes "evict_for_irrelevance d project mti bs q = (d', n)"
  shows "filter (\<lambda>ev. \<not> evictable project ev) (events d')
           = filter (\<lambda>ev. \<not> evictable project ev) (events d)"
    and "evictable_count project d = evictable_count project d' + n"
    and "int (length (events d)) = int (length (events d')) + n"
    and "0 \<le> n"
    and "set (events d') \<subseteq> set (events d)"
  using evict_for_irrelevance_from_frame [of d project mti bs q 0 d' n] assms
  by (simp_all add: evict_for_irrelevance_def)

lemma evict_while_stop:
  assumes "\<not> sec - deleted > lowered_target (retention_max_event_count project)"
  shows "evict_while project sec ebwi pairs d mti deleted = (d, Inr mti)"
  using assms by (subst evict_while.simps) simp

lemma evict_while_raise:
  assumes "sec - deleted > lowered_target (retention_max_event_count project)"
    and "mti - 1 < - 1"
    and "evict_for_irrelevance d project (mti - 1) (filter_for_work ebwi pairs (mti - 1))
           (Some ((retention_max_event_count project
                     - lowered_target (retention_max_event_count project)) - deleted)) = (d1, n)"
  shows "evict_while project sec ebwi pairs d mti deleted = (d1, Inl NoMoreEffectiveEviction)"
  using assms by (subst evict_while.simps) simp

lemma evict_while_step:
  assumes "sec - deleted > lowered_target (retention_max_event_count project)"
    and "\<not> mti - 1 < - 1"
    and "evict_for_irrelevance d project (mti - 1) (filter_for_work ebwi pairs (mti - 1))
           (Some ((retention_max_event_count project
                     - lowered_target (retention_max_event_count project)) - deleted)) = (d1, n)"
  shows "evict_while project sec ebwi pairs d mti deleted
           = evict_while project sec ebwi pairs d1 (mti - 1) (deleted + n)"
  using assms by (subst evict_while.simps) simp

lemma evict_while_frame:
  assumes "evict_while project sec ebwi pairs d mti deleted = (d', r)"
  shows "filter (\<lambda>ev. \<not> evictable project ev) (events d')
           = filter (\<lambda>ev. \<not> evictable project ev) (events d)
         \<and> set (events d') \<subseteq> set (events d)
         \<and> evictable_count project d' \<le> evictable_count project d
         \<and> int (length (events d)) - int (length (events d'))
             = evictable_count project d - evictable_count project d'
         \<and> (\<forall>m. r = Inr m \<longrightarrow>
               sec - deleted - (evictable_count project d - evictable_count project d')
                 \<le> lowered_target (retention_max_event_count project)
               \<and> m \<le> mti)"
  using assms
proof (induction project sec ebwi pairs d mti deleted rule: evict_while.induct)
  case (1 project sec ebwi pairs d mti deleted)
  show ?case
  proof (cases "sec - deleted > lowered_target (retention_max_event_count project)")
    case False
    from evict_while_stop [OF this] "1.prems" have "d' = d" "r = Inr mti"
      by simp_all
    with False show ?thesis by simp
  next
    case True
    obtain d1 n where step: "evict_for_irrelevance d project (mti - 1)
                (filter_for_work ebwi pairs (mti - 1))
                (Some ((retention_max_event_count project
                          - lowered_target (retention_max_event_count project)) - deleted)) = (d1, n)"
      by (cases "evict_for_irrelevance d project (mti - 1)
                (filter_for_work ebwi pairs (mti - 1))
                (Some ((retention_max_event_count project
                          - lowered_target (retention_max_event_count project)) - deleted))") blast
    note f = evict_for_irrelevance_frame [OF step]
    show ?thesis
    proof (cases "mti - 1 < - 1")
      case raise: True
      from evict_while_raise [OF True raise step] "1.prems"
      have "d' = d1" "r = Inl NoMoreEffectiveEviction" by simp_all
      then show ?thesis using f by simp
    next
      case False
      from evict_while_step [OF True False step] "1.prems"
      have "evict_while project sec ebwi pairs d1 (mti - 1) (deleted + n) = (d', r)" by simp
      from "1.IH" [OF True step [symmetric] False this] f show ?thesis
        by auto
    qed
  qed
qed

lemma evict_for_irrelevance_newest_all:
  assumes "mti \<le> - 1" and "0 + mx > mti"
  shows "evict_for_irrelevance d project mti
           (filter_for_work (((lb, None), 0) # rest) ((0, mx) # prest) mti) q
         = (fst (evict_for_epoch_and_irrelevance d project None mti),
            snd (evict_for_epoch_and_irrelevance d project None mti))"
proof -
  have "filter_for_work (((lb, None), 0) # rest) ((0, mx) # prest) mti
          = ((lb, None), 0) # filter_for_work rest prest mti"
    using assms(2) by (intro filter_for_work_head) simp
  moreover have "mti - 0 \<le> - 1" using assms(1) by simp
  ultimately show ?thesis
    using evict_for_irrelevance_from_break [of mti 0 d project lb None _ q 0]
    by (simp add: evict_for_irrelevance_def)
qed

lemma evict_while_returns:
  assumes "\<forall>ev\<in>set (events d). evictable project ev \<longrightarrow> 0 \<le> irrelevance_for_retention ev"
    and "ebwi = ((lb, None), 0) # rest"
    and "pairs = (0, mx) # prest"
    and "0 \<le> mx"
    and "0 \<le> mti \<or> (mti = - 1 \<and> evictable_count project d = 0)"
    and "sec - deleted - evictable_count project d
           \<le> lowered_target (retention_max_event_count project)"
  shows "\<exists>d' m. evict_while project sec ebwi pairs d mti deleted = (d', Inr m) \<and> - 1 \<le> m"
  using assms
proof (induction project sec ebwi pairs d mti deleted rule: evict_while.induct)
  case (1 project sec ebwi pairs d mti deleted)
  show ?case
  proof (cases "sec - deleted > lowered_target (retention_max_event_count project)")
    case False
    from evict_while_stop [OF this] "1.prems"(5) show ?thesis by auto
  next
    case True
    then have mti: "0 \<le> mti" using "1.prems"(5,6) by auto
    then have no_raise: "\<not> mti - 1 < - 1" by simp
    obtain d1 n where step: "evict_for_irrelevance d project (mti - 1)
                (filter_for_work ebwi pairs (mti - 1))
                (Some ((retention_max_event_count project
                          - lowered_target (retention_max_event_count project)) - deleted)) = (d1, n)"
      by (cases "evict_for_irrelevance d project (mti - 1)
                (filter_for_work ebwi pairs (mti - 1))
                (Some ((retention_max_event_count project
                          - lowered_target (retention_max_event_count project)) - deleted))") blast
    note f = evict_for_irrelevance_frame [OF step]
    have nonneg: "\<forall>ev\<in>set (events d1). evictable project ev \<longrightarrow> 0 \<le> irrelevance_for_retention ev"
      using "1.prems"(1) f(5) by blast
    have inv: "0 \<le> mti - 1 \<or> (mti - 1 = - 1 \<and> evictable_count project d1 = 0)"
    proof (cases "mti = 0")
      case False
      then show ?thesis using mti by simp
    next
      case True
      have "d1 = fst (evict_for_epoch_and_irrelevance d project None (- 1))"
        using step evict_for_irrelevance_newest_all [of "- 1" mx d project lb rest prest]
          "1.prems"(2,3,4) True by simp
      then show ?thesis
        using delete_everything [OF "1.prems"(1), of "- 1"] True by simp
    qed
    have enough: "sec - (deleted + n) - evictable_count project d1
           \<le> lowered_target (retention_max_event_count project)"
      using "1.prems"(6) f(2) by simp
    from "1.IH" [OF True step [symmetric] no_raise nonneg "1.prems"(2,3,4) inv enough]
    show ?thesis
      using evict_while_step [OF True no_raise step] by simp
  qed
qed

lemma evict_while_raises:
  assumes "sec - deleted - evictable_count project d
             > lowered_target (retention_max_event_count project)"
  shows "\<exists>d'. evict_while project sec ebwi pairs d mti deleted = (d', Inl NoMoreEffectiveEviction)"
proof -
  obtain d' r where res: "evict_while project sec ebwi pairs d mti deleted = (d', r)"
    by (cases "evict_while project sec ebwi pairs d mti deleted") blast
  have "0 \<le> evictable_count project d'"
    by (simp add: evictable_count_def)
  then have "r \<noteq> Inr m" for m
    using evict_while_frame [OF res] assms by auto
  then obtain e where "r = Inl e"
    by (cases r) auto
  moreover from this have "e = NoMoreEffectiveEviction"
    using evict_while_error [of project sec ebwi pairs d mti deleted e] res by simp
  ultimately show ?thesis using res by simp
qed

lemma evict_while_raise_log:
  assumes "ebwi = ((lb, None), 0) # rest"
    and "pairs = (0, mx) # prest"
    and "0 \<le> mx"
    and "- 1 \<le> mti"
    and "evict_while project sec ebwi pairs d mti deleted = (d', Inl e)"
  shows "\<exists>log. delete_log d' = (project_id project, None, - 2) # log"
  using assms
proof (induction project sec ebwi pairs d mti deleted rule: evict_while.induct)
  case (1 project sec ebwi pairs d mti deleted)
  show ?case
  proof (cases "sec - deleted > lowered_target (retention_max_event_count project)")
    case False
    from evict_while_stop [OF this] "1.prems"(5) show ?thesis by simp
  next
    case True
    obtain d1 n where step: "evict_for_irrelevance d project (mti - 1)
                (filter_for_work ebwi pairs (mti - 1))
                (Some ((retention_max_event_count project
                          - lowered_target (retention_max_event_count project)) - deleted)) = (d1, n)"
      by (cases "evict_for_irrelevance d project (mti - 1)
                (filter_for_work ebwi pairs (mti - 1))
                (Some ((retention_max_event_count project
                          - lowered_target (retention_max_event_count project)) - deleted))") blast
    show ?thesis
    proof (cases "mti - 1 < - 1")
      case raise: True
      then have mti: "mti - 1 = - 2" using "1.prems"(4) by simp
      have "d' = d1"
        using evict_while_raise [OF True raise step] "1.prems"(5) by simp
      moreover have "d1 = fst (evict_for_epoch_and_irrelevance d project None (- 2))"
        using step evict_for_irrelevance_newest_all [of "- 2" mx d project lb rest prest]
          "1.prems"(1,2,3) mti by simp
      ultimately show ?thesis
        by (simp add: evict_for_epoch_and_irrelevance_log)
    next
      case False
      then have "- 1 \<le> mti - 1" by simp
      moreover have "evict_while project sec ebwi pairs d1 (mti - 1) (deleted + n) = (d', Inl e)"
        using evict_while_step [OF True False step] "1.prems"(5) by simp
      ultimately show ?thesis
        using "1.IH" [OF True step [symmetric] False "1.prems"(1,2,3)] by blast
    qed
  qed
qed

lemma set_filter_for_work: "set (filter_for_work bs pairs mti) \<subseteq> set bs"
  by (auto simp: filter_for_work_def dest: set_zip_rightD)

lemma planned_older_bounded:
  "\<exists>lb rest. planned cur m = ((lb, None), 0) # rest \<and> (\<forall>b\<in>set rest. snd (fst b) \<noteq> None)"
proof -
  obtain lb rest where hd: "planned cur m = ((lb, None), 0) # rest"
    using planned_hd by blast
  have "map snd (map fst (planned cur m))
          = None # map Some (map (\<lambda>n. cur - n) (map get_age_for_irrelevance [0..<m]))"
  proof -
    have sw: "map snd (map (\<lambda>(ub, lb). (lb, ub)) xs) = map fst xs"
      for xs :: "(int option \<times> int option) list"
      by (induction xs) auto
    show ?thesis
      unfolding map_fst_planned sw by (rule pairwise_chain_fst)
  qed
  then have "map (\<lambda>b. snd (fst b)) rest
          = map Some (map (\<lambda>n. cur - n) (map get_age_for_irrelevance [0..<m]))"
    unfolding hd by (simp add: comp_def)
  then have "\<forall>u\<in>set (map (\<lambda>b. snd (fst b)) rest). u \<noteq> None"
    by auto
  then show ?thesis using hd by auto
qed

lemma evict_for_irrelevance_from_log:
  assumes "evict_for_irrelevance_from d project mti bs q deleted = (d', deleted')"
  shows "\<exists>new. delete_log d' = new @ delete_log d
           \<and> (\<forall>x\<in>set new. \<exists>lb ub age. ((lb, ub), age) \<in> set bs
                  \<and> x = (project_id project, ub, mti - age))"
  using assms
proof (induction bs arbitrary: d deleted)
  case Nil
  then show ?case by simp
next
  case (Cons b bs)
  obtain lb ub age where b: "b = ((lb, ub), age)"
    by (cases b) auto
  obtain d1 n where q1: "evict_for_epoch_and_irrelevance d project ub (mti - age) = (d1, n)"
    by (cases "evict_for_epoch_and_irrelevance d project ub (mti - age)") blast
  have log1: "delete_log d1 = [(project_id project, ub, mti - age)] @ delete_log d"
    using q1 evict_for_epoch_and_irrelevance_log [of d project ub "mti - age"] by simp
  show ?case
  proof (cases "mti - age \<le> - 1 \<or> (case q of None \<Rightarrow> False | Some c \<Rightarrow> deleted + n \<ge> c)")
    case True
    then have "d' = d1"
      using Cons.prems b q1 by (auto simp: Let_def split: if_splits)
    then show ?thesis
      using log1 b by (intro exI [of _ "[(project_id project, ub, mti - age)]"]) auto
  next
    case False
    then have "evict_for_irrelevance_from d1 project mti bs q (deleted + n) = (d', deleted')"
      using Cons.prems b q1 by (auto simp: Let_def split: if_splits)
    from Cons.IH [OF this] obtain new where
      new: "delete_log d' = new @ delete_log d1"
      "\<forall>x\<in>set new. \<exists>lb ub age. ((lb, ub), age) \<in> set bs
                  \<and> x = (project_id project, ub, mti - age)"
      by blast
    have "delete_log d' = (new @ [(project_id project, ub, mti - age)]) @ delete_log d"
      using new(1) log1 by simp
    moreover have "\<forall>x\<in>set (new @ [(project_id project, ub, mti - age)]).
             \<exists>lb ub age. ((lb, ub), age) \<in> set (b # bs)
                  \<and> x = (project_id project, ub, mti - age)"
      using new(2) b by fastforce
    ultimately show ?thesis by blast
  qed
qed

lemma evict_while_single_last_query:
  assumes "ebwi = ((lb, None), 0) # rest"
    and "\<forall>b\<in>set rest. snd (fst b) \<noteq> None"
    and "pairs = (0, mx) # prest"
    and "0 \<le> mx"
    and "- 1 \<le> mti"
    and "evict_while project sec ebwi pairs d mti deleted = (d', r)"
  shows "count_list (delete_log d') (project_id project, None, - 2)
           = count_list (delete_log d) (project_id project, None, - 2)
             + (if r = Inl NoMoreEffectiveEviction then 1 else 0)"
  using assms
proof (induction project sec ebwi pairs d mti deleted rule: evict_while.induct)
  case (1 project sec ebwi pairs d mti deleted)
  show ?case
  proof (cases "sec - deleted > lowered_target (retention_max_event_count project)")
    case False
    from evict_while_stop [OF this, of ebwi pairs d mti] "1.prems"(6) show ?thesis by auto
  next
    case True
    obtain d1 n where step: "evict_for_irrelevance d project (mti - 1)
                (filter_for_work ebwi pairs (mti - 1))
                (Some ((retention_max_event_count project
                          - lowered_target (retention_max_event_count project)) - deleted)) = (d1, n)"
      by (cases "evict_for_irrelevance d project (mti - 1)
                (filter_for_work ebwi pairs (mti - 1))
                (Some ((retention_max_event_count project
                          - lowered_target (retention_max_event_count project)) - deleted))") blast
    show ?thesis
    proof (cases "mti - 1 < - 1")
      case raise: True
      then have mti: "mti - 1 = - 2" using "1.prems"(5) by simp
      have "d' = d1" "r = Inl NoMoreEffectiveEviction"
        using evict_while_raise [OF True raise step] "1.prems"(6) by simp_all
      moreover have "d1 = fst (evict_for_epoch_and_irrelevance d project None (- 2))"
        using step evict_for_irrelevance_newest_all [of "- 2" mx d project lb rest prest]
          "1.prems"(1,3,4) mti by simp
      ultimately show ?thesis
        by (simp add: evict_for_epoch_and_irrelevance_log)
    next
      case False
      then have above: "- 1 \<le> mti - 1" by simp
      from step obtain new where
        new: "delete_log d1 = new @ delete_log d"
        and from_buckets: "\<forall>x\<in>set new. \<exists>lb ub age.
               ((lb, ub), age) \<in> set (filter_for_work ebwi pairs (mti - 1))
               \<and> x = (project_id project, ub, (mti - 1) - age)"
        using evict_for_irrelevance_from_log
          [of d project "mti - 1" "filter_for_work ebwi pairs (mti - 1)" _ 0 d1 n]
        unfolding evict_for_irrelevance_def by blast
      have "(project_id project, None, - 2) \<notin> set new"
      proof
        assume "(project_id project, None, - 2) \<in> set new"
        then obtain lb' age where
          mem: "((lb', None), age) \<in> set (filter_for_work ebwi pairs (mti - 1))"
          and thr: "(mti - 1) - age = - 2"
          using from_buckets by auto
        from mem have "((lb', None), age) \<in> set ebwi"
          using set_filter_for_work by blast
        then have "age = 0"
          using "1.prems"(1,2) by auto
        then show False using thr above by simp
      qed
      then have same: "count_list (delete_log d1) (project_id project, None, - 2)
           = count_list (delete_log d) (project_id project, None, - 2)"
        unfolding new by (simp add: count_list_0_iff)
      have "evict_while project sec ebwi pairs d1 (mti - 1) (deleted + n) = (d', r)"
        using evict_while_step [OF True False step] "1.prems"(6) by simp
      from "1.IH" [OF True step [symmetric] False "1.prems"(1,2,3,4) above this] same
      show ?thesis by simp
    qed
  qed
qed

subsection \<open>Runs of evict_for_max_events\<close>

lemma get_epoch_bounds_with_irrelevance_not_Utc:
  assumes "tzinfo now \<noteq> Utc"
  shows "get_epoch_bounds_with_irrelevance d project now = Some (Inl AssertionError)"
proof (cases "oldest_evictable d project")
  case None
  then show ?thesis
    using assms by (simp add: get_epoch_bounds_with_irrelevance_def get_epoch_def)
next
  case (Some t)
  then obtain first where "get_epoch t = Inr first"
    using oldest_evictable_Utc get_epoch_Utc by blast
  then show ?thesis
    using assms Some by (simp add: get_epoch_bounds_with_irrelevance_def get_epoch_def)
qed

lemma evict_for_max_events_not_Utc:
  assumes "tzinfo now \<noteq> Utc"
  shows "evict_for_max_events d project now sec = Some (d, Inl AssertionError)"
  using get_epoch_bounds_with_irrelevance_not_Utc [OF assms]
  by (simp add: evict_for_max_events_def)

lemma evict_for_max_events_Utc:
  assumes "tzinfo now = Utc"
  shows "\<exists>lb rest mx prest mti.
           evict_for_max_events d project now sec
             = Some (evict_while project
                       (case sec of
                          None \<Rightarrow> int (length (filter (\<lambda>ev. event_project ev = project_id project)
                                                  (events d))) + 1
                        | Some c \<Rightarrow> c)
                       (((lb, None), 0) # rest) ((0, mx) # prest) d mti 0)
           \<and> mx \<le> mti
           \<and> ((\<forall>ev\<in>set (events d). evictable project ev \<longrightarrow> 0 \<le> irrelevance_for_retention ev)
                \<longrightarrow> 0 \<le> mx)
           \<and> (\<forall>b\<in>set rest. snd (fst b) \<noteq> None)"
proof -
  obtain cur m where
    bs: "get_epoch_bounds_with_irrelevance d project now = Some (Inr (planned cur m))"
    using get_epoch_bounds_with_irrelevance_planned [OF assms] by blast
  obtain lb rest where hd: "planned cur m = ((lb, None), 0) # rest"
    and older: "\<forall>b\<in>set rest. snd (fst b) \<noteq> None"
    using planned_older_bounded by blast
  obtain mx where pairs: "get_irrelevance_pairs d project (((lb, None), 0) # rest)
           = (0, mx) # get_irrelevance_pairs d project rest"
    by (simp add: get_irrelevance_pairs_def)
  have mx: "0 \<le> mx"
    if "\<forall>ev\<in>set (events d). evictable project ev \<longrightarrow> 0 \<le> irrelevance_for_retention ev"
    using get_irrelevance_pairs_head [OF that, of lb None 0 rest] pairs by auto
  define mti where "mti = fold max (map (\<lambda>pair. fst pair + snd pair)
                                      (get_irrelevance_pairs d project rest)) (0 + mx)"
  have "mx \<le> mti"
    unfolding mti_def using fold_max_ge [of "0 + mx"] by simp
  moreover have "evict_for_max_events d project now sec
             = Some (evict_while project
                       (case sec of
                          None \<Rightarrow> int (length (filter (\<lambda>ev. event_project ev = project_id project)
                                                  (events d))) + 1
                        | Some c \<Rightarrow> c)
                       (((lb, None), 0) # rest)
                       ((0, mx) # get_irrelevance_pairs d project rest) d mti 0)"
    by (simp add: evict_for_max_events_def bs hd pairs mti_def Let_def)
  ultimately show ?thesis
    using mx older by blast
qed

lemma filter_never_evict_others:
  "filter never_evict (filter (\<lambda>ev. \<not> evictable project ev) xs) = filter never_evict xs"
  by (induction xs) (auto simp: evictable_def)

lemma protected_kept:
  assumes "filter (\<lambda>ev. \<not> evictable project ev) xs = filter (\<lambda>ev. \<not> evictable project ev) ys"
  shows "filter never_evict xs = filter never_evict ys"
  using filter_never_evict_others [of project xs] filter_never_evict_others [of project ys] assms
  by simp

text \<open>
  C1: none of the three eviction operations deletes a protected event: the rows with
  \<open>never_evict\<close> set are the same, in number and order, before and after
  \<open>evict_for_epoch_and_irrelevance\<close>, \<open>evict_for_irrelevance\<close> and
  \<open>evict_for_max_events\<close> (which always comes to an end), whatever the irrelevance, the
  timestamps, the threshold, the buckets and the quota.
\<close>

theorem protected_events_survive:
  "filter never_evict
      (events (fst (evict_for_epoch_and_irrelevance d project max_epoch max_irrelevance)))
     = filter never_evict (events d)
   \<and> filter never_evict
        (events (fst (evict_for_irrelevance d project max_total_irrelevance bs quota)))
     = filter never_evict (events d)
   \<and> (\<exists>d' r. evict_for_max_events d project timestamp stored_event_count = Some (d', r)
              \<and> filter never_evict (events d') = filter never_evict (events d))"
proof (intro conjI)
  obtain d1 n where
    "evict_for_epoch_and_irrelevance d project max_epoch max_irrelevance = (d1, n)"
    by (cases "evict_for_epoch_and_irrelevance d project max_epoch max_irrelevance") blast
  from protected_kept [OF evict_for_epoch_and_irrelevance_frame(1) [OF this]] this
  show "filter never_evict
      (events (fst (evict_for_epoch_and_irrelevance d project max_epoch max_irrelevance)))
     = filter never_evict (events d)"
    by simp
next
  obtain d1 n where
    "evict_for_irrelevance d project max_total_irrelevance bs quota = (d1, n)"
    by (cases "evict_for_irrelevance d project max_total_irrelevance bs quota") blast
  from protected_kept [OF evict_for_irrelevance_frame(1) [OF this]] this
  show "filter never_evict
        (events (fst (evict_for_irrelevance d project max_total_irrelevance bs quota)))
     = filter never_evict (events d)"
    by simp
next
  show "\<exists>d' r. evict_for_max_events d project timestamp stored_event_count = Some (d', r)
              \<and> filter never_evict (events d') = filter never_evict (events d)"
  proof (cases "tzinfo timestamp = Utc")
    case False
    from evict_for_max_events_not_Utc [OF this] show ?thesis by simp
  next
    case True
    from evict_for_max_events_Utc [OF this, of d project stored_event_count]
    obtain lb rest mx prest mti where
      run: "evict_for_max_events d project timestamp stored_event_count
              = Some (evict_while project
                       (case stored_event_count of
                          None \<Rightarrow> int (length (filter (\<lambda>ev. event_project ev = project_id project)
                                                  (events d))) + 1
                        | Some c \<Rightarrow> c)
                       (((lb, None), 0) # rest) ((0, mx) # prest) d mti 0)"
      by (elim exE conjE)
    define sec where "sec = (case stored_event_count of
                          None \<Rightarrow> int (length (filter (\<lambda>ev. event_project ev = project_id project)
                                                  (events d))) + 1
                        | Some c \<Rightarrow> c)"
    define ebwi where "ebwi = ((lb, None), 0::int) # rest"
    define pairs where "pairs = (0::int, mx) # prest"
    note run = run [folded sec_def ebwi_def pairs_def]
    obtain d' r where res: "evict_while project sec ebwi pairs d mti 0 = (d', r)"
      by (cases "evict_while project sec ebwi pairs d mti 0") blast
    from evict_while_frame [OF res]
    have "filter (\<lambda>ev. \<not> evictable project ev) (events d')
            = filter (\<lambda>ev. \<not> evictable project ev) (events d)"
      by (rule conjunct1)
    then have "filter never_evict (events d') = filter never_evict (events d)"
      by (rule protected_kept)
    then show ?thesis using run res by simp
  qed
qed

lemma lowered_target_10000: "lowered_target 10000 = 9500"
  by (simp add: lowered_target_def int_of_quotient_def)

text \<open>
  C5: when the stored event count the run starts from (passed in, or counted plus one) is at
  most \<open>lowered_target\<close> of the project's maximum, \<open>evict_for_max_events\<close> returns with
  the database as it was: no row deleted and no delete query issued. For a UTC timestamp it
  returns a threshold, not an error.
\<close>

theorem no_op_below_target:
  assumes "(case stored_event_count of
              None \<Rightarrow> int (length (filter (\<lambda>ev. event_project ev = project_id project)
                                      (events d))) + 1
            | Some c \<Rightarrow> c) \<le> lowered_target (retention_max_event_count project)"
  shows "\<exists>r. evict_for_max_events d project timestamp stored_event_count = Some (d, r)
           \<and> (tzinfo timestamp = Utc \<longrightarrow> (\<exists>m. r = Inr m))"
proof (cases "tzinfo timestamp = Utc")
  case False
  from evict_for_max_events_not_Utc [OF this] False show ?thesis by simp
next
  case True
  from evict_for_max_events_Utc [OF this, of d project stored_event_count]
  obtain lb rest mx prest mti where
    run: "evict_for_max_events d project timestamp stored_event_count
              = Some (evict_while project
                       (case stored_event_count of
                          None \<Rightarrow> int (length (filter (\<lambda>ev. event_project ev = project_id project)
                                                  (events d))) + 1
                        | Some c \<Rightarrow> c)
                       (((lb, None), 0) # rest) ((0, mx) # prest) d mti 0)"
    by (elim exE conjE)
  have "\<not> (case stored_event_count of
              None \<Rightarrow> int (length (filter (\<lambda>ev. event_project ev = project_id project)
                                      (events d))) + 1
            | Some c \<Rightarrow> c) - 0 > lowered_target (retention_max_event_count project)"
    using assms by simp
  from evict_while_stop [OF this] run show ?thesis by simp
qed

theorem no_op_below_target_witness:
  "\<exists>r. evict_for_max_events
          \<lparr>events = [\<lparr>event_project = 1, server_side_timestamp = 0,
                       irrelevance_for_retention = 3, never_evict = False\<rparr>],
           delete_log = []\<rparr>
          \<lparr>project_id = 1, retention_max_event_count = 10000\<rparr>
          \<lparr>tzinfo = Utc, micros = 36000000000\<rparr> (Some 9500)
        = Some (\<lparr>events = [\<lparr>event_project = 1, server_side_timestamp = 0,
                       irrelevance_for_retention = 3, never_evict = False\<rparr>],
                 delete_log = []\<rparr>, r)"
  using no_op_below_target [where stored_event_count = "Some 9500"
      and project = "\<lparr>project_id = 1, retention_max_event_count = 10000\<rparr>"
      and d = "\<lparr>events = [\<lparr>event_project = 1, server_side_timestamp = 0,
                       irrelevance_for_retention = 3, never_evict = False\<rparr>],
           delete_log = []\<rparr>"
      and timestamp = "\<lparr>tzinfo = Utc, micros = 36000000000\<rparr>"]
  by (auto simp: lowered_target_def int_of_quotient_def)

text \<open>
  C4: for a UTC timestamp and item irrelevances that are never negative,
  \<open>evict_for_max_events\<close> ends with the exhaustion error exactly when the stored count, less
  the rows deleted, is still above the lowered target. Its last delete query is then the one
  for the threshold \<open>-2\<close> on the newest bucket, issued once in the run (the sweep is not
  taken up again), and the error is the result of the call. In every other case the call
  returns a threshold of at least \<open>-1\<close>.
\<close>

theorem fatal_exhaustion:
  assumes "tzinfo timestamp = Utc"
    and "\<forall>ev\<in>set (events d). evictable project ev \<longrightarrow> 0 \<le> irrelevance_for_retention ev"
  shows "\<exists>d' r. evict_for_max_events d project timestamp stored_event_count = Some (d', r)
           \<and> (r = Inl NoMoreEffectiveEviction \<longleftrightarrow>
                lowered_target (retention_max_event_count project)
                  < (case stored_event_count of
                       None \<Rightarrow> int (length (filter (\<lambda>ev. event_project ev = project_id project)
                                               (events d))) + 1
                     | Some c \<Rightarrow> c)
                    - (int (length (events d)) - int (length (events d'))))
           \<and> (r = Inl NoMoreEffectiveEviction \<longrightarrow>
                (\<exists>log. delete_log d' = (project_id project, None, - 2) # log)
                \<and> count_list (delete_log d') (project_id project, None, - 2)
                    = count_list (delete_log d) (project_id project, None, - 2) + 1)
           \<and> (r \<noteq> Inl NoMoreEffectiveEviction \<longrightarrow> (\<exists>m. r = Inr m \<and> - 1 \<le> m))"
proof -
  define sec where "sec = (case stored_event_count of
                       None \<Rightarrow> int (length (filter (\<lambda>ev. event_project ev = project_id project)
                                               (events d))) + 1
                     | Some c \<Rightarrow> c)"
  from evict_for_max_events_Utc [OF assms(1), of d project stored_event_count]
  obtain lb rest mx prest mti where
    run: "evict_for_max_events d project timestamp stored_event_count
              = Some (evict_while project sec
                       (((lb, None), 0) # rest) ((0, mx) # prest) d mti 0)"
    and mti: "mx \<le> mti"
    and mx': "(\<forall>ev\<in>set (events d). evictable project ev \<longrightarrow> 0 \<le> irrelevance_for_retention ev)
                \<longrightarrow> 0 \<le> mx"
    and older: "\<forall>b\<in>set rest. snd (fst b) \<noteq> None"
    unfolding sec_def by (elim exE conjE)
  have mx: "0 \<le> mx" using mx' assms(2) by simp
  obtain d' r where res: "evict_while project sec
                       (((lb, None), 0) # rest) ((0, mx) # prest) d mti 0 = (d', r)"
    by (cases "evict_while project sec
                       (((lb, None), 0) # rest) ((0, mx) # prest) d mti 0") blast
  note f = evict_while_frame [OF res]
  have removed: "int (length (events d)) - int (length (events d'))
             = evictable_count project d - evictable_count project d'"
    using f by simp
  have left: "0 \<le> evictable_count project d'"
    by (simp add: evictable_count_def)
  show ?thesis
  proof (cases "sec - 0 - evictable_count project d
                  \<le> lowered_target (retention_max_event_count project)")
    case True
    have "0 \<le> mti \<or> (mti = - 1 \<and> evictable_count project d = 0)"
      using mx mti by simp
    from evict_while_returns [OF assms(2) refl refl mx this True, of lb rest prest] res
    obtain m where m: "r = Inr m" "- 1 \<le> m" by auto
    then have "sec - 0 - (evictable_count project d - evictable_count project d')
                 \<le> lowered_target (retention_max_event_count project)"
      using f by simp
    then show ?thesis
      using run res m removed unfolding sec_def by simp
  next
    case False
    then have "sec - 0 - evictable_count project d
             > lowered_target (retention_max_event_count project)" by simp
    from evict_while_raises [OF this, of "((lb, None), 0) # rest" "(0, mx) # prest" mti] res
    have r: "r = Inl NoMoreEffectiveEviction" by simp
    have above: "- 1 \<le> mti" using mx mti by simp
    from evict_while_raise_log [OF refl refl mx above res [unfolded r]]
    obtain log where log: "delete_log d' = (project_id project, None, - 2) # log" by blast
    have once: "count_list (delete_log d') (project_id project, None, - 2)
                    = count_list (delete_log d) (project_id project, None, - 2) + 1"
      using evict_while_single_last_query [OF refl older refl mx above res] r by simp
    have "lowered_target (retention_max_event_count project)
            < sec - (int (length (events d)) - int (length (events d')))"
      using False removed left by simp
    then show ?thesis
      using run res r log once unfolding sec_def by simp
  qed
qed

theorem fatal_exhaustion_witness:
  "\<exists>d' r. evict_for_max_events
          \<lparr>events = [\<lparr>event_project = 1, server_side_timestamp = 0,
                       irrelevance_for_retention = 3, never_evict = True\<rparr>],
           delete_log = []\<rparr>
          \<lparr>project_id = 1, retention_max_event_count = 1\<rparr>
          \<lparr>tzinfo = Utc, micros = 36000000000\<rparr> (Some 2) = Some (d', r)
        \<and> (r = Inl NoMoreEffectiveEviction \<longleftrightarrow> 0 < 2 - (1 - int (length (events d'))))
        \<and> (r = Inl NoMoreEffectiveEviction \<longrightarrow>
             (\<exists>log. delete_log d' = (1, None, - 2) # log)
             \<and> count_list (delete_log d') (1, None, - 2) = 1)"
  using fatal_exhaustion [where stored_event_count = "Some 2"
      and project = "\<lparr>project_id = 1, retention_max_event_count = 1\<rparr>"
      and d = "\<lparr>events = [\<lparr>event_project = 1, server_side_timestamp = 0,
                       irrelevance_for_retention = 3, never_evict = True\<rparr>],
           delete_log = []\<rparr>"
      and timestamp = "\<lparr>tzinfo = Utc, micros = 36000000000\<rparr>"]
  by (simp add: lowered_target_def int_of_quotient_def)

lemma evictable_count_no_protected:
  assumes "\<forall>ev\<in>set (events d). event_project ev = project_id project \<longrightarrow> never_evict ev = False"
  shows "evictable_count project d
           = int (length (filter (\<lambda>ev. event_project ev = project_id project) (events d)))"
proof -
  have "filter (evictable project) (events d)
          = filter (\<lambda>ev. event_project ev = project_id project) (events d)"
    using assms by (intro filter_cong) (auto simp: evictable_def)
  then show ?thesis by (simp add: evictable_count_def)
qed

text \<open>
  C3: with \<open>retention_max_event_count = 10000\<close>, 10000 events of the project in the table
  and a stored event count of 10001 (passed in, or counted plus one), and a UTC timestamp:
  if none of the project's events is protected and their item irrelevances are not negative,
  \<open>evict_for_max_events\<close> returns a threshold and the stored count, less the rows deleted,
  is at most 9500 and at least 0; if fewer than 501 of the project's events are not
  protected, it ends with the exhaustion error, the count still above 9500.
\<close>

theorem convergence_of_one_run:
  assumes "tzinfo timestamp = Utc"
    and "retention_max_event_count project = 10000"
    and "int (length (filter (\<lambda>ev. event_project ev = project_id project) (events d))) = 10000"
    and "stored_event_count = None \<or> stored_event_count = Some 10001"
  shows "((\<forall>ev\<in>set (events d). event_project ev = project_id project \<longrightarrow>
             never_evict ev = False \<and> 0 \<le> irrelevance_for_retention ev) \<longrightarrow>
          (\<exists>d' m. evict_for_max_events d project timestamp stored_event_count = Some (d', Inr m)
             \<and> 10001 - (int (length (events d)) - int (length (events d'))) \<le> 9500
             \<and> 0 \<le> 10001 - (int (length (events d)) - int (length (events d')))))
       \<and> (evictable_count project d < 501 \<longrightarrow>
          (\<exists>d'. evict_for_max_events d project timestamp stored_event_count
                   = Some (d', Inl NoMoreEffectiveEviction)
             \<and> 9500 < 10001 - (int (length (events d)) - int (length (events d')))))"
proof -
  have sec: "(case stored_event_count of
                None \<Rightarrow> int (length (filter (\<lambda>ev. event_project ev = project_id project)
                                        (events d))) + 1
              | Some c \<Rightarrow> c) = 10001"
    using assms(3,4) by auto
  from evict_for_max_events_Utc [OF assms(1), of d project stored_event_count]
  obtain lb rest mx prest mti where
    run: "evict_for_max_events d project timestamp stored_event_count
              = Some (evict_while project 10001
                       (((lb, None), 0) # rest) ((0, mx) # prest) d mti 0)"
    and mti: "mx \<le> mti"
    and mx': "(\<forall>ev\<in>set (events d). evictable project ev \<longrightarrow> 0 \<le> irrelevance_for_retention ev)
                \<longrightarrow> 0 \<le> mx"
    unfolding sec by (elim exE conjE)
  have target: "lowered_target (retention_max_event_count project) = 9500"
    by (simp add: assms(2) lowered_target_10000)
  obtain d' r where res: "evict_while project 10001
                       (((lb, None), 0) # rest) ((0, mx) # prest) d mti 0 = (d', r)"
    by (cases "evict_while project 10001
                       (((lb, None), 0) # rest) ((0, mx) # prest) d mti 0") blast
  note f = evict_while_frame [OF res]
  have removed: "int (length (events d)) - int (length (events d'))
             = evictable_count project d - evictable_count project d'"
    using f by simp
  have left: "0 \<le> evictable_count project d'"
    by (simp add: evictable_count_def)
  have part1: "\<exists>d' m. evict_for_max_events d project timestamp stored_event_count = Some (d', Inr m)
             \<and> 10001 - (int (length (events d)) - int (length (events d'))) \<le> 9500
             \<and> 0 \<le> 10001 - (int (length (events d)) - int (length (events d')))"
    if free: "\<forall>ev\<in>set (events d). event_project ev = project_id project \<longrightarrow>
             never_evict ev = False \<and> 0 \<le> irrelevance_for_retention ev"
  proof -
    have nonneg: "\<forall>ev\<in>set (events d). evictable project ev \<longrightarrow> 0 \<le> irrelevance_for_retention ev"
      using free by (simp add: evictable_def)
    have count: "evictable_count project d = 10000"
      using evictable_count_no_protected [of d project] free assms(3) by simp
    have mx: "0 \<le> mx" using mx' nonneg by simp
    have inv: "0 \<le> mti \<or> (mti = - 1 \<and> evictable_count project d = 0)"
      using mx mti by simp
    have "10001 - 0 - evictable_count project d
            \<le> lowered_target (retention_max_event_count project)"
      using count target by simp
    from evict_while_returns [OF nonneg refl refl mx inv this, of lb rest prest] res
    obtain m where m: "r = Inr m" by auto
    then have "10001 - 0 - (evictable_count project d - evictable_count project d') \<le> 9500"
      using f target by simp
    then show ?thesis
      using run res m removed count left by auto
  qed
  have part2: "\<exists>d'. evict_for_max_events d project timestamp stored_event_count
                   = Some (d', Inl NoMoreEffectiveEviction)
             \<and> 9500 < 10001 - (int (length (events d)) - int (length (events d')))"
    if few: "evictable_count project d < 501"
  proof -
    have "10001 - 0 - evictable_count project d
             > lowered_target (retention_max_event_count project)"
      using few target by simp
    from evict_while_raises [OF this, of "((lb, None), 0) # rest" "(0, mx) # prest" mti] res
    have "r = Inl NoMoreEffectiveEviction" by simp
    then show ?thesis
      using run res removed left few by auto
  qed
  from part1 part2 show ?thesis by blast
qed

theorem convergence_of_one_run_witness:
  "(\<exists>d' m. evict_for_max_events
       \<lparr>events = replicate 10000 \<lparr>event_project = 1, server_side_timestamp = 0,
                                     irrelevance_for_retention = 3, never_evict = False\<rparr>,
        delete_log = []\<rparr>
       \<lparr>project_id = 1, retention_max_event_count = 10000\<rparr>
       \<lparr>tzinfo = Utc, micros = 36000000000\<rparr> None = Some (d', Inr m)
     \<and> 10001 - (10000 - int (length (events d'))) \<le> 9500)
   \<and> (\<exists>d'. evict_for_max_events
       \<lparr>events = replicate 10000 \<lparr>event_project = 1, server_side_timestamp = 0,
                                     irrelevance_for_retention = 3, never_evict = True\<rparr>,
        delete_log = []\<rparr>
       \<lparr>project_id = 1, retention_max_event_count = 10000\<rparr>
       \<lparr>tzinfo = Utc, micros = 36000000000\<rparr> (Some 10001)
         = Some (d', Inl NoMoreEffectiveEviction))"
proof -
  have a: "int (length (filter (\<lambda>ev. event_project ev = Suc 0) (replicate 10000
       \<lparr>event_project = Suc 0, server_side_timestamp = 0,
          irrelevance_for_retention = 3, never_evict = b\<rparr>))) = 10000" for b
    by simp
  have b: "evictable_count \<lparr>project_id = 1, retention_max_event_count = 10000\<rparr>
       \<lparr>events = replicate 10000 \<lparr>event_project = 1, server_side_timestamp = 0,
                                     irrelevance_for_retention = 3, never_evict = True\<rparr>,
        delete_log = []\<rparr> < 501"
    by (simp add: evictable_count_def evictable_def)
  show ?thesis
    using convergence_of_one_run [where stored_event_count = None
      and project = "\<lparr>project_id = 1, retention_max_event_count = 10000\<rparr>"
      and d = "\<lparr>events = replicate 10000 \<lparr>event_project = 1, server_side_timestamp = 0,
                                     irrelevance_for_retention = 3, never_evict = False\<rparr>,
        delete_log = []\<rparr>"
      and timestamp = "\<lparr>tzinfo = Utc, micros = 36000000000\<rparr>"]
      convergence_of_one_run [where stored_event_count = "Some 10001"
      and project = "\<lparr>project_id = 1, retention_max_event_count = 10000\<rparr>"
      and d = "\<lparr>events = replicate 10000 \<lparr>event_project = 1, server_side_timestamp = 0,
                                     irrelevance_for_retention = 3, never_evict = True\<rparr>,
        delete_log = []\<rparr>"
      and timestamp = "\<lparr>tzinfo = Utc, micros = 36000000000\<rparr>"] a b
    by simp blast
qed

subsection \<open>The quota of the executor\<close>

lemma evict_for_irrelevance_from_quota_reached:
  assumes "pre \<noteq> []"
    and "q \<le> snd (evict_for_irrelevance_from d project mti pre (Some q) deleted)"
  shows "evict_for_irrelevance_from d project mti (pre @ rest) (Some q) deleted
           = evict_for_irrelevance_from d project mti pre (Some q) deleted"
  using assms
proof (induction pre arbitrary: d deleted)
  case Nil
  then show ?case by simp
next
  case (Cons b pre)
  obtain lb ub age where b: "b = ((lb, ub), age)"
    by (cases b) auto
  obtain d1 n where q1: "evict_for_epoch_and_irrelevance d project ub (mti - age) = (d1, n)"
    by (cases "evict_for_epoch_and_irrelevance d project ub (mti - age)") blast
  show ?case
  proof (cases "mti - age \<le> - 1 \<or> q \<le> deleted + n")
    case True
    then show ?thesis
      using b q1 by (auto simp: Let_def)
  next
    case False
    then have here: "evict_for_irrelevance_from d project mti (b # pre) (Some q) deleted
             = evict_for_irrelevance_from d1 project mti pre (Some q) (deleted + n)"
      using b q1 by (simp add: Let_def)
    have "pre \<noteq> []"
    proof
      assume "pre = []"
      then have "snd (evict_for_irrelevance_from d project mti (b # pre) (Some q) deleted)
                   = deleted + n"
        using here by simp
      then show False using Cons.prems(2) False by simp
    qed
    moreover have "q \<le> snd (evict_for_irrelevance_from d1 project mti pre (Some q) (deleted + n))"
      using Cons.prems(2) here by simp
    ultimately have "evict_for_irrelevance_from d1 project mti (pre @ rest) (Some q) (deleted + n)
           = evict_for_irrelevance_from d1 project mti pre (Some q) (deleted + n)"
      by (rule Cons.IH)
    then show ?thesis
      using False b q1 by (simp add: Let_def)
  qed
qed

text \<open>
  C2, as stated, fails: the quota is tested after a bucket's delete query, and one query can
  delete more than the quota. Two events of irrelevance 1, threshold 0, quota 1: both are
  deleted.
\<close>

theorem quota_overshoot_counterexample:
  "evict_for_irrelevance
      \<lparr>events = [\<lparr>event_project = 1, server_side_timestamp = 0,
                   irrelevance_for_retention = 1, never_evict = False\<rparr>,
                 \<lparr>event_project = 1, server_side_timestamp = 3600000000,
                   irrelevance_for_retention = 1, never_evict = False\<rparr>],
       delete_log = []\<rparr>
      \<lparr>project_id = 1, retention_max_event_count = 20\<rparr> 0 [((None, None), 0)] (Some 1)
     = (\<lparr>events = [], delete_log = [(1, None, 0)]\<rparr>, 2)
   \<and> \<not> (2::int) \<le> 1"
  by (simp add: evict_for_irrelevance_def evict_for_epoch_and_irrelevance_def evicted_def Let_def)

text \<open>
  C2, amended: with a quota \<open>q\<close>, \<open>evict_for_irrelevance\<close> visits no further bucket once
  the deletions of the buckets visited so far have reached \<open>q\<close>: when a non-empty initial
  part of the bucket list alone yields at least \<open>q\<close> deletions, the call on the whole list
  does exactly what the call on that part does. (The delete query that reaches the quota is
  not limited by it.)
\<close>

theorem quota_stops_the_visit:
  assumes "pre \<noteq> []"
    and "q \<le> snd (evict_for_irrelevance d project max_total_irrelevance pre (Some q))"
  shows "evict_for_irrelevance d project max_total_irrelevance (pre @ rest) (Some q)
           = evict_for_irrelevance d project max_total_irrelevance pre (Some q)"
  using assms evict_for_irrelevance_from_quota_reached [of pre q d project max_total_irrelevance 0 rest]
  by (simp add: evict_for_irrelevance_def)

theorem quota_stops_the_visit_witness:
  "evict_for_irrelevance
      \<lparr>events = [\<lparr>event_project = 1, server_side_timestamp = 0,
                   irrelevance_for_retention = 5, never_evict = False\<rparr>,
                 \<lparr>event_project = 1, server_side_timestamp = 36000000000,
                   irrelevance_for_retention = 6, never_evict = False\<rparr>],
       delete_log = []\<rparr>
      \<lparr>project_id = 1, retention_max_event_count = 20\<rparr> 5
      ([((Some 10, None), 0)] @ [((None, Some 10), 1)]) (Some 1)
     = (\<lparr>events = [\<lparr>event_project = 1, server_side_timestamp = 0,
                   irrelevance_for_retention = 5, never_evict = False\<rparr>],
         delete_log = [(1, None, 5)]\<rparr>, 1)"
proof -
  have one: "evict_for_irrelevance
      \<lparr>events = [\<lparr>event_project = 1, server_side_timestamp = 0,
                   irrelevance_for_retention = 5, never_evict = False\<rparr>,
                 \<lparr>event_project = 1, server_side_timestamp = 36000000000,
                   irrelevance_for_retention = 6, never_evict = False\<rparr>],
       delete_log = []\<rparr>
      \<lparr>project_id = 1, retention_max_event_count = 20\<rparr> 5 [((Some 10, None), 0)] (Some 1)
     = (\<lparr>events = [\<lparr>event_project = 1, server_side_timestamp = 0,
                   irrelevance_for_retention = 5, never_evict = False\<rparr>],
         delete_log = [(1, None, 5)]\<rparr>, 1)"
    by (simp add: evict_for_irrelevance_def evict_for_epoch_and_irrelevance_def evicted_def Let_def)
  have "[((Some 10, None), 0::int)] \<noteq> ([] :: (bounds \<times> int) list)" by simp
  moreover have "1 \<le> snd (evict_for_irrelevance
      \<lparr>events = [\<lparr>event_project = 1, server_side_timestamp = 0,
                   irrelevance_for_retention = 5, never_evict = False\<rparr>,
                 \<lparr>event_project = 1, server_side_timestamp = 36000000000,
                   irrelevance_for_retention = 6, never_evict = False\<rparr>],
       delete_log = []\<rparr>
      \<lparr>project_id = 1, retention_max_event_count = 20\<rparr> 5 [((Some 10, None), 0)] (Some 1))"
    unfolding one by simp
  ultimately show ?thesis
    unfolding one [symmetric] by (rule quota_stops_the_visit)
qed

subsection \<open>The early exit of the executor\<close>

lemma ub_le_evicted:
  assumes "ub_le ub ub0" and "evicted project ub mi ev"
  shows "case ub0 of None \<Rightarrow> True
         | Some m \<Rightarrow> server_side_timestamp ev < micros (epoch_start m)"
  using assms
  by (auto simp: ub_le_def evicted_def epoch_start_def split: option.splits)

lemma evict_every_bucket_from_nothing_left:
  assumes "\<forall>ev\<in>set (events d). evictable project ev \<longrightarrow>
             \<not> (case ub0 of None \<Rightarrow> True
                | Some m \<Rightarrow> server_side_timestamp ev < micros (epoch_start m))"
    and "\<forall>b\<in>set bs. ub_le (snd (fst b)) ub0"
  shows "events (fst (evict_every_bucket_from d project mti bs deleted)) = events d
         \<and> snd (evict_every_bucket_from d project mti bs deleted) = deleted"
  using assms
proof (induction bs arbitrary: d deleted)
  case Nil
  show ?case by simp
next
  case (Cons b bs)
  obtain lb ub age where b: "b = ((lb, ub), age)"
    by (cases b) auto
  have le: "ub_le ub ub0" using Cons.prems(2) b by simp
  have none: "\<not> evicted project ub (mti - age) ev" if "ev \<in> set (events d)" for ev
    using ub_le_evicted [OF le, of project "mti - age" ev] Cons.prems(1) that
      evicted_evictable [of project ub "mti - age" ev] by blast
  then have keep: "filter (\<lambda>ev. \<not> evicted project ub (mti - age) ev) (events d) = events d"
    and zero: "filter (evicted project ub (mti - age)) (events d) = []"
    by (auto simp: filter_id_conv filter_empty_conv)
  obtain d1 n where q1: "evict_for_epoch_and_irrelevance d project ub (mti - age) = (d1, n)"
    by (cases "evict_for_epoch_and_irrelevance d project ub (mti - age)") blast
  have d1: "events d1 = events d" and n: "n = 0"
    using q1 evict_for_epoch_and_irrelevance_events [of d project ub "mti - age"]
      evict_for_epoch_and_irrelevance_count [of d project ub "mti - age"] keep zero
    by simp_all
  have "events (fst (evict_every_bucket_from d1 project mti bs deleted)) = events d1
         \<and> snd (evict_every_bucket_from d1 project mti bs deleted) = deleted"
    using Cons.prems d1 by (intro Cons.IH) simp_all
  then show ?case
    using b q1 d1 n by (simp add: Let_def)
qed

lemma evict_for_irrelevance_from_every_bucket:
  assumes "newest_to_oldest bs"
    and "\<forall>ev\<in>set (events d). evictable project ev \<longrightarrow> 0 \<le> irrelevance_for_retention ev"
  shows "events (fst (evict_for_irrelevance_from d project mti bs None deleted))
           = events (fst (evict_every_bucket_from d project mti bs deleted))
         \<and> snd (evict_for_irrelevance_from d project mti bs None deleted)
           = snd (evict_every_bucket_from d project mti bs deleted)"
  using assms
proof (induction bs arbitrary: d deleted)
  case Nil
  show ?case by simp
next
  case (Cons b bs)
  obtain lb ub age where b: "b = ((lb, ub), age)"
    by (cases b) auto
  have older: "\<forall>b'\<in>set bs. ub_le (snd (fst b')) ub" and sorted: "newest_to_oldest bs"
    using Cons.prems(1) b by (simp_all add: newest_to_oldest_def)
  obtain d1 n where q1: "evict_for_epoch_and_irrelevance d project ub (mti - age) = (d1, n)"
    by (cases "evict_for_epoch_and_irrelevance d project ub (mti - age)") blast
  have d1: "events d1 = filter (\<lambda>ev. \<not> evicted project ub (mti - age) ev) (events d)"
    using q1 evict_for_epoch_and_irrelevance_events [of d project ub "mti - age"] by simp
  have nonneg: "\<forall>ev\<in>set (events d1). evictable project ev \<longrightarrow> 0 \<le> irrelevance_for_retention ev"
    using Cons.prems(2) d1 by simp
  show ?case
  proof (cases "mti - age \<le> - 1")
    case True
    have "\<forall>ev\<in>set (events d1). evictable project ev \<longrightarrow>
             \<not> (case ub of None \<Rightarrow> True
                | Some m \<Rightarrow> server_side_timestamp ev < micros (epoch_start m))"
      using nonneg True unfolding d1 by (fastforce simp: evicted_def evictable_def)
    from evict_every_bucket_from_nothing_left [OF this older, of mti "deleted + n"]
    show ?thesis
      using True b q1 by (simp add: Let_def)
  next
    case False
    from Cons.IH [OF sorted nonneg, of "deleted + n"] show ?thesis
      using False b q1 by (simp add: Let_def)
  qed
qed

lemma filter_for_work_Cons:
  "filter_for_work (b # bs) (p # ps) mti
     = (if fst p + snd p > mti then [b] else []) @ filter_for_work bs ps mti"
  by (simp add: filter_for_work_def)

lemma filter_for_work_newest_to_oldest:
  assumes "newest_to_oldest bs"
  shows "newest_to_oldest (filter_for_work bs pairs mti)"
  using assms
proof (induction bs arbitrary: pairs)
  case Nil
  show ?case by (simp add: filter_for_work_def newest_to_oldest_def)
next
  case (Cons b bs)
  show ?case
  proof (cases pairs)
    case Nil
    then show ?thesis by (simp add: filter_for_work_def newest_to_oldest_def)
  next
    case (Cons p ps)
    have "newest_to_oldest (filter_for_work bs ps mti)"
      using Cons.IH Cons.prems by (simp add: newest_to_oldest_def)
    moreover have "\<forall>b'\<in>set (filter_for_work bs ps mti). ub_le (snd (fst b')) (snd (fst b))"
      using Cons.prems set_filter_for_work [of bs ps mti] by (auto simp: newest_to_oldest_def)
    ultimately show ?thesis
      unfolding Cons filter_for_work_Cons by (simp add: newest_to_oldest_def)
  qed
qed

lemma get_epoch_bounds_with_irrelevance_Inr:
  assumes "get_epoch_bounds_with_irrelevance d project now = Some (Inr bs)"
  shows "\<exists>cur m. bs = planned cur m"
proof (cases "tzinfo now = Utc")
  case False
  from get_epoch_bounds_with_irrelevance_not_Utc [OF this, of d project] assms
  show ?thesis by simp
next
  case True
  from get_epoch_bounds_with_irrelevance_planned [OF this, of d project] assms
  show ?thesis by auto
qed

text \<open>
  C7: for the bucket list of the planner, and for what \<open>filter_for_work\<close> keeps of it, any
  threshold and no quota, \<open>evict_for_irrelevance\<close> leaves the same rows and reports the same
  count as the loop that processes every remaining older bucket, provided no item
  irrelevance is negative.
\<close>

theorem early_exit_equivalence:
  assumes "get_epoch_bounds_with_irrelevance d0 project current_timestamp = Some (Inr bs)"
    and "\<forall>ev\<in>set (events d). evictable project ev \<longrightarrow> 0 \<le> irrelevance_for_retention ev"
  shows "events (fst (evict_for_irrelevance d project max_total_irrelevance bs None))
           = events (fst (evict_every_bucket d project max_total_irrelevance bs))
         \<and> snd (evict_for_irrelevance d project max_total_irrelevance bs None)
           = snd (evict_every_bucket d project max_total_irrelevance bs)
         \<and> events (fst (evict_for_irrelevance d project max_total_irrelevance
                          (filter_for_work bs pairs max_total_irrelevance) None))
           = events (fst (evict_every_bucket d project max_total_irrelevance
                          (filter_for_work bs pairs max_total_irrelevance)))
         \<and> snd (evict_for_irrelevance d project max_total_irrelevance
                  (filter_for_work bs pairs max_total_irrelevance) None)
           = snd (evict_every_bucket d project max_total_irrelevance
                  (filter_for_work bs pairs max_total_irrelevance))"
proof -
  from get_epoch_bounds_with_irrelevance_Inr [OF assms(1)]
  have sorted: "newest_to_oldest bs"
    using planned_newest_to_oldest by auto
  have whole: "events (fst (evict_for_irrelevance_from d project max_total_irrelevance bs None 0))
           = events (fst (evict_every_bucket_from d project max_total_irrelevance bs 0))
         \<and> snd (evict_for_irrelevance_from d project max_total_irrelevance bs None 0)
           = snd (evict_every_bucket_from d project max_total_irrelevance bs 0)"
    using sorted assms(2) by (rule evict_for_irrelevance_from_every_bucket)
  have "newest_to_oldest (filter_for_work bs pairs max_total_irrelevance)"
    using sorted by (rule filter_for_work_newest_to_oldest)
  then have kept: "events (fst (evict_for_irrelevance_from d project max_total_irrelevance
                          (filter_for_work bs pairs max_total_irrelevance) None 0))
           = events (fst (evict_every_bucket_from d project max_total_irrelevance
                          (filter_for_work bs pairs max_total_irrelevance) 0))
         \<and> snd (evict_for_irrelevance_from d project max_total_irrelevance
                  (filter_for_work bs pairs max_total_irrelevance) None 0)
           = snd (evict_every_bucket_from d project max_total_irrelevance
                  (filter_for_work bs pairs max_total_irrelevance) 0)"
    using assms(2) by (rule evict_for_irrelevance_from_every_bucket)
  from whole kept show ?thesis
    by (simp add: evict_for_irrelevance_def evict_every_bucket_def)
qed

theorem early_exit_equivalence_witness:
  "events (fst (evict_for_irrelevance
      \<lparr>events = [\<lparr>event_project = 1, server_side_timestamp = 0,
                   irrelevance_for_retention = 0, never_evict = False\<rparr>,
                 \<lparr>event_project = 1, server_side_timestamp = 3600000000,
                   irrelevance_for_retention = 2, never_evict = True\<rparr>],
       delete_log = []\<rparr>
      \<lparr>project_id = 1, retention_max_event_count = 20\<rparr> (- 1)
      [((Some 1, None), 0), ((None, Some 1), 1)] None))
   = events (fst (evict_every_bucket
      \<lparr>events = [\<lparr>event_project = 1, server_side_timestamp = 0,
                   irrelevance_for_retention = 0, never_evict = False\<rparr>,
                 \<lparr>event_project = 1, server_side_timestamp = 3600000000,
                   irrelevance_for_retention = 2, never_evict = True\<rparr>],
       delete_log = []\<rparr>
      \<lparr>project_id = 1, retention_max_event_count = 20\<rparr> (- 1)
      [((Some 1, None), 0), ((None, Some 1), 1)]))"
proof -
  have planner: "get_epoch_bounds_with_irrelevance
      \<lparr>events = [\<lparr>event_project = 1, server_side_timestamp = 0,
                   irrelevance_for_retention = 0, never_evict = False\<rparr>,
                 \<lparr>event_project = 1, server_side_timestamp = 3600000000,
                   irrelevance_for_retention = 2, never_evict = True\<rparr>],
       delete_log = []\<rparr>
      \<lparr>project_id = 1, retention_max_event_count = 20\<rparr>
      \<lparr>tzinfo = Utc, micros = 3600000000\<rparr>
     = Some (Inr [((Some 1, None), 0), ((None, Some 1), 1)])"
    by code_simp
  have nonneg: "\<forall>ev\<in>set (events
      \<lparr>events = [\<lparr>event_project = 1, server_side_timestamp = 0,
                   irrelevance_for_retention = 0, never_evict = False\<rparr>,
                 \<lparr>event_project = 1, server_side_timestamp = 3600000000,
                   irrelevance_for_retention = 2, never_evict = True\<rparr>],
       delete_log = []\<rparr>).
      evictable \<lparr>project_id = 1, retention_max_event_count = 20\<rparr> ev
        \<longrightarrow> 0 \<le> irrelevance_for_retention ev"
    by simp
  from early_exit_equivalence [OF planner nonneg, where max_total_irrelevance = "- 1"]
  show ?thesis
    by blast
qed

end
